theory Spec2Isabelle
  imports Complex_Main
begin

section \<open>Arrays, errors and broadcasting\<close>

text \<open>
  The two functions of \<^verbatim>\<open>sigpy/mri/rf/optcont.py\<close> work on numpy arrays in exact
  (real and complex) arithmetic here. A 1-D complex array is a \<open>complex list\<close>. The
  exceptions numpy can raise in these functions are an \<open>IndexError\<close> (indexing the
  gradient past its end) and a \<open>ValueError\<close> (operands that cannot be broadcast
  together, or a matrix product with mismatched inner dimension).
\<close>

datatype error = IndexError | ValueError

definition ebind :: "error + 'a \<Rightarrow> ('a \<Rightarrow> error + 'b) \<Rightarrow> error + 'b" where
  "ebind m f = (case m of Inl e \<Rightarrow> Inl e | Inr v \<Rightarrow> f v)"

text \<open>
  An elementwise binary operation on two 1-D arrays, with numpy's broadcasting: equal
  lengths are combined pointwise, an array of length one is stretched, anything else
  raises.
\<close>

definition bop :: "(complex \<Rightarrow> complex \<Rightarrow> complex) \<Rightarrow> complex list \<Rightarrow> complex list
    \<Rightarrow> error + complex list" where
  "bop f xs ys =
     (if length xs = length ys then Inr (map2 f xs ys)
      else if length xs = 1 then Inr (map (f (hd xs)) ys)
      else if length ys = 1 then Inr (map (\<lambda>x. f x (hd ys)) xs)
      else Inl ValueError)"

text \<open>A 2-D real array of shape \<open>(length rows, ncols)\<close>.\<close>

record array2 =
  ncols :: nat
  rows :: "real list list"

text \<open>
  The positions \<open>x\<close> and the gradient waveform \<open>g\<close> come in one of two layouts: both
  1-D (\<open>x\<close> of shape \<open>(N)\<close>, \<open>g\<close> of shape \<open>(Nt)\<close>; the branch \<open>g.ndim > 1\<close> is not
  taken), or both 2-D (\<open>x\<close> of shape \<open>(N, Ndim)\<close>, \<open>g\<close> of shape \<open>(Nt, Ndim)\<close>; the
  branch \<open>g.ndim > 1\<close> is taken).
\<close>

datatype geometry = Geom1 "real list" "real list" | GeomN array2 array2

text \<open>\<open>xp.shape(x)[0]\<close>\<close>

fun nspins :: "geometry \<Rightarrow> nat" where
  "nspins (Geom1 x g) = length x"
| "nspins (GeomN x g) = length (rows x)"

text \<open>\<open>g[mm]\<close> and \<open>g[mm, :]\<close> for a non-negative index.\<close>

definition index :: "'a list \<Rightarrow> nat \<Rightarrow> error + 'a" where
  "index xs mm = (if mm < length xs then Inr (xs ! mm) else Inl IndexError)"

text \<open>
  \<open>(c * x) @ v\<close> for a complex scalar \<open>c\<close>, a 2-D real array \<open>x\<close> and a real vector
  \<open>v\<close>: the scalar multiplies \<open>x\<close> first (\<open>*\<close> and \<open>@\<close> associate to the left), then each
  row is summed against \<open>v\<close>.
\<close>

definition matvec :: "complex \<Rightarrow> array2 \<Rightarrow> real list \<Rightarrow> error + complex list" where
  "matvec c x v =
     (if ncols x \<noteq> length v then Inl ValueError
      else Inr (map (\<lambda>row. sum_list (map2 (\<lambda>xv gv. c * of_real xv * of_real gv) row v))
                  (rows x)))"

text \<open>\<open>xp.sum(g, 0)\<close>: the column sums of a 2-D array.\<close>

definition col_sums :: "array2 \<Rightarrow> real list" where
  "col_sums g = map (\<lambda>d. sum_list (map (\<lambda>r. r ! d) (rows g))) [0..<ncols g]"

section \<open>The RF rotation coefficients and the gradient phases\<close>

text \<open>\<open>C = cos(abs(rf[mm]) / 2)\<close> and \<open>S = 1j * exp(1j * angle(rf[mm])) * sin(abs(rf[mm]) / 2)\<close>\<close>

definition rf_C :: "complex \<Rightarrow> real" where
  "rf_C r = cos (cmod r / 2)"

definition rf_S :: "complex \<Rightarrow> complex" where
  "rf_S r = \<i> * exp (\<i> * complex_of_real (Arg r)) * complex_of_real (sin (cmod r / 2))"

text \<open>
  The gradient blip of step \<open>mm\<close>: \<open>exp(c * x @ g[mm, :])\<close> or \<open>exp(c * x * g[mm])\<close>, with
  \<open>c = -1j\<close> in \<open>blochsim\<close> and \<open>c = 1j / 2\<close> in \<open>deriv\<close>.
\<close>

fun grad_phase :: "complex \<Rightarrow> geometry \<Rightarrow> nat \<Rightarrow> error + complex list" where
  "grad_phase c (GeomN x g) mm =
     ebind (index (rows g) mm) (\<lambda>gm.
     ebind (matvec c x gm) (\<lambda>v. Inr (map exp v)))"
| "grad_phase c (Geom1 x g) mm =
     ebind (index g mm) (\<lambda>gm.
     Inr (map (\<lambda>xv. exp (c * of_real xv * of_real gm)) x))"

text \<open>The total phase accrual: \<open>exp(1j / 2 * x @ sum(g, 0))\<close> or \<open>exp(1j / 2 * x * sum(g))\<close>.\<close>

fun total_phase :: "geometry \<Rightarrow> error + complex list" where
  "total_phase (GeomN x g) = ebind (matvec (\<i> / 2) x (col_sums g)) (\<lambda>v. Inr (map exp v))"
| "total_phase (Geom1 x g) =
     Inr (map (\<lambda>xv. exp (\<i> / 2 * of_real xv * of_real (sum_list g))) x)"

section \<open>blochsim\<close>

text \<open>The block \<open># apply RF\<close>: \<open>at = a * C - b * conj(S)\<close>, \<open>bt = a * S + b * C\<close>.\<close>

definition apply_rf :: "complex \<Rightarrow> complex list \<times> complex list
    \<Rightarrow> error + complex list \<times> complex list" where
  "apply_rf r st =
     (let C = complex_of_real (rf_C r); S = rf_S r; a = fst st; b = snd st in
      ebind (bop (-) (map (\<lambda>v. v * C) a) (map (\<lambda>v. v * cnj S) b)) (\<lambda>a1.
      ebind (bop (+) (map (\<lambda>v. v * S) a) (map (\<lambda>v. v * C) b)) (\<lambda>b1.
      Inr (a1, b1))))"

text \<open>The block \<open># apply gradient\<close>: \<open>b = b * z\<close>.\<close>

definition apply_gradient :: "geometry \<Rightarrow> nat \<Rightarrow> complex list \<times> complex list
    \<Rightarrow> error + complex list \<times> complex list" where
  "apply_gradient geom mm st =
     ebind (grad_phase (- \<i>) geom mm) (\<lambda>z.
     ebind (bop (*) (snd st) z) (\<lambda>b.
     Inr (fst st, b)))"

text \<open>One pass through the body of the loop over time, at index \<open>mm\<close>.\<close>

definition bloch_step :: "complex list \<Rightarrow> geometry \<Rightarrow> nat \<Rightarrow> complex list \<times> complex list
    \<Rightarrow> error + complex list \<times> complex list" where
  "bloch_step rf geom mm st = ebind (apply_rf (rf ! mm) st) (apply_gradient geom mm)"

text \<open>
  The state \<open>(a, b)\<close> after the first \<open>k\<close> passes of \<open>for mm in range(0, size(rf), 1)\<close>,
  started from \<open>a = ones(shape(x)[0])\<close>, \<open>b = zeros(shape(x)[0])\<close>.
\<close>

primrec bloch_iter :: "complex list \<Rightarrow> geometry \<Rightarrow> nat \<Rightarrow> error + complex list \<times> complex list" where
  "bloch_iter rf geom 0 = Inr (replicate (nspins geom) 1, replicate (nspins geom) 0)"
| "bloch_iter rf geom (Suc k) = ebind (bloch_iter rf geom k) (bloch_step rf geom k)"

text \<open>The block \<open># apply total phase accrual\<close>: \<open>a = a * z\<close>, \<open>b = b * z\<close>.\<close>

definition apply_total :: "geometry \<Rightarrow> complex list \<times> complex list
    \<Rightarrow> error + complex list \<times> complex list" where
  "apply_total geom st =
     ebind (total_phase geom) (\<lambda>z.
     ebind (bop (*) (fst st) z) (\<lambda>a.
     ebind (bop (*) (snd st) z) (\<lambda>b.
     Inr (a, b))))"

definition blochsim :: "complex list \<Rightarrow> geometry \<Rightarrow> error + complex list \<times> complex list" where
  "blochsim rf geom = ebind (bloch_iter rf geom (length rf)) (apply_total geom)"

section \<open>deriv\<close>

text \<open>
  The state of the reverse loop: the gradient \<open>drf\<close>, the forward simulation
  \<open>(af, bf)\<close> being unwound and the backward simulation \<open>(ar, br)\<close>.
\<close>

record dstate =
  drf :: "complex list"
  af :: "complex list"
  bf :: "complex list"
  ar :: "complex list"
  br :: "complex list"

text \<open>\<open># strip off gradient blip from forward sim\<close>: \<open>af = af * conj(z)\<close>, \<open>bf = bf * z\<close>.\<close>

definition strip_blip :: "complex list \<Rightarrow> complex list \<times> complex list
    \<Rightarrow> error + complex list \<times> complex list" where
  "strip_blip z fw =
     ebind (bop (*) (fst fw) (map cnj z)) (\<lambda>a.
     ebind (bop (*) (snd fw) z) (\<lambda>b.
     Inr (a, b)))"

text \<open>\<open># add gradient blip to backward sim\<close>: \<open>ar = ar * z\<close>, \<open>br = br * z\<close>.\<close>

definition add_blip :: "complex list \<Rightarrow> complex list \<times> complex list
    \<Rightarrow> error + complex list \<times> complex list" where
  "add_blip z bw =
     ebind (bop (*) (fst bw) z) (\<lambda>a.
     ebind (bop (*) (snd bw) z) (\<lambda>b.
     Inr (a, b)))"

text \<open>
  \<open># strip off the curent rf rotation from forward sim\<close>:
  \<open>at = af * C + bf * conj(S)\<close>, \<open>bt = -af * S + bf * C\<close>.
\<close>

definition strip_rf :: "complex \<Rightarrow> complex list \<times> complex list
    \<Rightarrow> error + complex list \<times> complex list" where
  "strip_rf r fw =
     (let C = complex_of_real (rf_C r); S = rf_S r; a = fst fw; b = snd fw in
      ebind (bop (+) (map (\<lambda>v. v * C) a) (map (\<lambda>v. v * cnj S) b)) (\<lambda>a1.
      ebind (bop (+) (map (\<lambda>v. - v * S) a) (map (\<lambda>v. v * C) b)) (\<lambda>b1.
      Inr (a1, b1))))"

text \<open>
  \<open># calculate derivatives wrt rf[mm]\<close>, the part from \<open>auxb\<close>:
  \<open>db1 = conj(1j / 2 * br * bf) * auxb\<close>, \<open>db2 = conj(1j / 2 * af) * ar * auxb\<close>,
  \<open>sum(db2 + conj(db1))\<close>.
\<close>

definition grad_b :: "complex list \<Rightarrow> complex list \<times> complex list
    \<Rightarrow> complex list \<times> complex list \<Rightarrow> error + complex" where
  "grad_b auxb fw bw =
     ebind (bop (*) (map (\<lambda>v. \<i> / 2 * v) (snd bw)) (snd fw)) (\<lambda>t1.
     ebind (bop (*) (map cnj t1) auxb) (\<lambda>db1.
     ebind (bop (*) (map (\<lambda>v. cnj (\<i> / 2 * v)) (fst fw)) (fst bw)) (\<lambda>t2.
     ebind (bop (*) t2 auxb) (\<lambda>db2.
     ebind (bop (+) db2 (map cnj db1)) (\<lambda>s.
     Inr (sum_list s))))))"

text \<open>
  The part from \<open>auxa\<close>, when it is not \<open>None\<close>:
  \<open>da1 = conj(1j / 2 * bf * ar) * auxa\<close>, \<open>da2 = 1j / 2 * conj(af) * br * auxa\<close>,
  \<open>sum(da2 + conj(da1))\<close>.
\<close>

definition grad_a :: "complex list \<Rightarrow> complex list \<times> complex list
    \<Rightarrow> complex list \<times> complex list \<Rightarrow> error + complex" where
  "grad_a auxa fw bw =
     ebind (bop (*) (map (\<lambda>v. \<i> / 2 * v) (snd fw)) (fst bw)) (\<lambda>t1.
     ebind (bop (*) (map cnj t1) auxa) (\<lambda>da1.
     ebind (bop (*) (map (\<lambda>v. \<i> / 2 * cnj v) (fst fw)) (snd bw)) (\<lambda>t2.
     ebind (bop (*) t2 auxa) (\<lambda>da2.
     ebind (bop (+) da2 (map cnj da1)) (\<lambda>s.
     Inr (sum_list s))))))"

text \<open>
  \<open># add current rf rotation to backward sim\<close>:
  \<open>art = ar * C - conj(br) * S\<close>, \<open>brt = br * C + conj(ar) * S\<close>.
\<close>

definition add_rf :: "complex \<Rightarrow> complex list \<times> complex list
    \<Rightarrow> error + complex list \<times> complex list" where
  "add_rf r bw =
     (let C = complex_of_real (rf_C r); S = rf_S r; a = fst bw; b = snd bw in
      ebind (bop (-) (map (\<lambda>v. v * C) a) (map (\<lambda>v. cnj v * S) b)) (\<lambda>art.
      ebind (bop (+) (map (\<lambda>v. v * C) b) (map (\<lambda>v. cnj v * S) a)) (\<lambda>brt.
      Inr (art, brt))))"

text \<open>One pass through the body of the reverse loop, at index \<open>mm\<close>.\<close>

definition deriv_step :: "complex list \<Rightarrow> geometry \<Rightarrow> complex list option \<Rightarrow> complex list
    \<Rightarrow> nat \<Rightarrow> dstate \<Rightarrow> error + dstate" where
  "deriv_step rf geom auxa auxb mm s =
     ebind (grad_phase (\<i> / 2) geom mm) (\<lambda>z.
     ebind (strip_blip z (af s, bf s)) (\<lambda>fw.
     ebind (add_blip z (ar s, br s)) (\<lambda>bw.
     ebind (strip_rf (rf ! mm) fw) (\<lambda>fw.
     ebind (grad_b auxb fw bw) (\<lambda>d.
     ebind (case auxa of None \<Rightarrow> Inr d
            | Some aa \<Rightarrow> ebind (grad_a aa fw bw) (\<lambda>d'. Inr (d + d'))) (\<lambda>d.
     ebind (add_rf (rf ! mm) bw) (\<lambda>bw.
     Inr \<lparr>drf = (drf s)[mm := d], af = fst fw, bf = snd fw,
          ar = fst bw, br = snd bw\<rparr>)))))))"

text \<open>
  The state after the first \<open>k\<close> passes of \<open>for mm in range(size(rf) - 1, -1, -1)\<close>
  (pass number \<open>k\<close>, counted from 0, has \<open>mm = size(rf) - 1 - k\<close>), started from
  \<open>drf = zeros(shape(rf))\<close>, \<open>ar = ones(shape(af))\<close>, \<open>br = zeros(shape(bf))\<close>.
\<close>

primrec deriv_iter :: "complex list \<Rightarrow> geometry \<Rightarrow> complex list option \<Rightarrow> complex list
    \<Rightarrow> complex list \<Rightarrow> complex list \<Rightarrow> nat \<Rightarrow> error + dstate" where
  "deriv_iter rf geom auxa auxb af0 bf0 0 =
     Inr \<lparr>drf = replicate (length rf) 0, af = af0, bf = bf0,
          ar = replicate (length af0) 1, br = replicate (length bf0) 0\<rparr>"
| "deriv_iter rf geom auxa auxb af0 bf0 (Suc k) =
     ebind (deriv_iter rf geom auxa auxb af0 bf0 k)
       (deriv_step rf geom auxa auxb (length rf - 1 - k))"

definition deriv :: "complex list \<Rightarrow> geometry \<Rightarrow> complex list option \<Rightarrow> complex list
    \<Rightarrow> complex list \<Rightarrow> complex list \<Rightarrow> error + complex list" where
  "deriv rf geom auxa auxb af0 bf0 =
     ebind (deriv_iter rf geom auxa auxb af0 bf0 (length rf)) (\<lambda>s. Inr (drf s))"

section \<open>Well-formed inputs\<close>

text \<open>
  A 2-D numpy array is rectangular: every row has \<open>ncols\<close> entries. Two 2-D arrays
  \<open>x\<close> and \<open>g\<close> fit when they have the same number of columns (\<open>Ndim\<close>).
\<close>

definition wf_array2 :: "array2 \<Rightarrow> bool" where
  "wf_array2 a \<longleftrightarrow> (\<forall>r \<in> set (rows a). length r = ncols a)"

fun wf_geom :: "geometry \<Rightarrow> bool" where
  "wf_geom (Geom1 x g) = True"
| "wf_geom (GeomN x g) = (wf_array2 x \<and> wf_array2 g \<and> ncols x = ncols g)"

text \<open>\<open>len(g)\<close>: the number of time steps the gradient waveform holds.\<close>

fun steps :: "geometry \<Rightarrow> nat" where
  "steps (Geom1 x g) = length g"
| "steps (GeomN x g) = length (rows g)"

section \<open>The reference recurrence of the specification\<close>

text \<open>
  The recurrence as the specification words it, for one spin \<open>n\<close>: start from
  \<open>a = 1\<close>, \<open>b = 0\<close>; at each step apply \<open>a' = a C - b conj(S)\<close>, \<open>b' = a S + b C\<close> with
  \<open>C = cos(|rf[t]| / 2)\<close> and \<open>S = i e^{i arg(rf[t])} sin(|rf[t]| / 2)\<close>, then multiply
  \<open>b\<close> by \<open>exp(-i (x . g[t]))\<close>; after the loop multiply both by
  \<open>exp(i/2 x . \<Sum>\<^sub>t g[t])\<close>.
\<close>

type_synonym spinor = "complex \<times> complex"

definition dot :: "real list \<Rightarrow> real list \<Rightarrow> real" where
  "dot u v = sum_list (map2 (*) u v)"

fun spec_phase :: "geometry \<Rightarrow> nat \<Rightarrow> nat \<Rightarrow> real" where
  "spec_phase (Geom1 x g) n t = x ! n * g ! t"
| "spec_phase (GeomN x g) n t = dot (rows x ! n) (rows g ! t)"

fun spec_total :: "geometry \<Rightarrow> nat \<Rightarrow> real" where
  "spec_total (Geom1 x g) n = x ! n * (\<Sum>t<length g. g ! t)"
| "spec_total (GeomN x g) n =
     dot (rows x ! n) (map (\<lambda>d. \<Sum>t<length (rows g). rows g ! t ! d) [0..<ncols g])"

definition spec_rotate :: "complex \<Rightarrow> spinor \<Rightarrow> spinor" where
  "spec_rotate r p =
     (let C = complex_of_real (cos (cmod r / 2));
          S = \<i> * exp (\<i> * complex_of_real (Arg r)) * complex_of_real (sin (cmod r / 2))
      in (fst p * C - snd p * cnj S, fst p * S + snd p * C))"

primrec spec_iter :: "complex list \<Rightarrow> geometry \<Rightarrow> nat \<Rightarrow> nat \<Rightarrow> spinor" where
  "spec_iter rf geom n 0 = (1, 0)"
| "spec_iter rf geom n (Suc t) =
     (let p = spec_rotate (rf ! t) (spec_iter rf geom n t)
      in (fst p, snd p * exp (- (\<i> * complex_of_real (spec_phase geom n t)))))"

definition spec_final :: "complex list \<Rightarrow> geometry \<Rightarrow> nat \<Rightarrow> spinor" where
  "spec_final rf geom n =
     (let p = spec_iter rf geom n (length rf);
          z = exp (\<i> / 2 * complex_of_real (spec_total geom n))
      in (fst p * z, snd p * z))"

definition blochsim_spec :: "complex list \<Rightarrow> geometry \<Rightarrow> complex list \<times> complex list" where
  "blochsim_spec rf geom =
     (map (\<lambda>n. fst (spec_final rf geom n)) [0..<nspins geom],
      map (\<lambda>n. snd (spec_final rf geom n)) [0..<nspins geom])"

section \<open>Properties of states\<close>

text \<open>
  A pair of arrays holds one unit spinor per spin: both have \<open>N\<close> entries and
  \<open>|a|\<^sup>2 + |b|\<^sup>2 = 1\<close> for each of them.
\<close>

definition unitary :: "nat \<Rightarrow> complex list \<times> complex list \<Rightarrow> bool" where
  "unitary N st \<longleftrightarrow> length (fst st) = N \<and> length (snd st) = N \<and>
     (\<forall>n<N. (cmod (fst st ! n))\<^sup>2 + (cmod (snd st ! n))\<^sup>2 = 1)"

section \<open>The reverse pass, spin by spin\<close>

text \<open>
  What one pass of the reverse loop of \<open>deriv\<close> does to the entries of one spin.
  \<open>back_fw\<close>: the gradient blip and then the RF rotation are stripped off the forward
  pair \<open>(af, bf)\<close>.
\<close>

definition back_fw :: "complex \<Rightarrow> real \<Rightarrow> spinor \<Rightarrow> spinor" where
  "back_fw r \<theta> F =
     (let z = exp (\<i> / 2 * complex_of_real \<theta>);
          a = fst F * cnj z; b = snd F * z;
          C = complex_of_real (rf_C r); S = rf_S r
      in (a * C + b * cnj S, - a * S + b * C))"

text \<open>\<open>back_blip\<close>: the gradient blip is added to the backward pair \<open>(ar, br)\<close>.\<close>

definition back_blip :: "real \<Rightarrow> spinor \<Rightarrow> spinor" where
  "back_blip \<theta> A = (let z = exp (\<i> / 2 * complex_of_real \<theta>) in (fst A * z, snd A * z))"

text \<open>\<open>back_rf\<close>: the RF rotation is added to the backward pair \<open>(ar, br)\<close>.\<close>

definition back_rf :: "complex \<Rightarrow> spinor \<Rightarrow> spinor" where
  "back_rf r A =
     (let C = complex_of_real (rf_C r); S = rf_S r
      in (fst A * C - cnj (snd A) * S, snd A * C + cnj (fst A) * S))"

text \<open>The summands \<open>db2 + conj(db1)\<close> and \<open>da2 + conj(da1)\<close> of one spin.\<close>

definition term_b :: "complex \<Rightarrow> spinor \<Rightarrow> spinor \<Rightarrow> complex" where
  "term_b wb F A = cnj (\<i> / 2 * fst F) * fst A * wb + cnj (cnj (\<i> / 2 * snd A * snd F) * wb)"

definition term_a :: "complex \<Rightarrow> spinor \<Rightarrow> spinor \<Rightarrow> complex" where
  "term_a wa F A = \<i> / 2 * cnj (fst F) * snd A * wa + cnj (cnj (\<i> / 2 * snd F * fst A) * wa)"

text \<open>
  The forward and the backward pair of spin \<open>n\<close> after \<open>k\<close> passes of the reverse loop.
\<close>

primrec spin_back :: "complex list \<Rightarrow> geometry \<Rightarrow> complex list \<Rightarrow> complex list \<Rightarrow> nat \<Rightarrow> nat
    \<Rightarrow> spinor \<times> spinor" where
  "spin_back rf geom af0 bf0 n 0 = ((af0 ! n, bf0 ! n), (1, 0))"
| "spin_back rf geom af0 bf0 n (Suc k) =
     (let mm = length rf - 1 - k; \<theta> = spec_phase geom n mm;
          s = spin_back rf geom af0 bf0 n k
      in (back_fw (rf ! mm) \<theta> (fst s), back_rf (rf ! mm) (back_blip \<theta> (snd s))))"

text \<open>
  The pairs of spin \<open>n\<close> from which the pass with index \<open>t\<close> computes \<open>drf[t]\<close>: the
  forward pair with the blip and the rotation of step \<open>t\<close> stripped off, the backward
  pair with the blip of step \<open>t\<close> added.
\<close>

definition spin_fw :: "complex list \<Rightarrow> geometry \<Rightarrow> complex list \<Rightarrow> complex list \<Rightarrow> nat \<Rightarrow> nat
    \<Rightarrow> spinor" where
  "spin_fw rf geom af0 bf0 n t =
     back_fw (rf ! t) (spec_phase geom n t) (fst (spin_back rf geom af0 bf0 n (length rf - 1 - t)))"

definition spin_bw :: "complex list \<Rightarrow> geometry \<Rightarrow> complex list \<Rightarrow> complex list \<Rightarrow> nat \<Rightarrow> nat
    \<Rightarrow> spinor" where
  "spin_bw rf geom af0 bf0 n t =
     back_blip (spec_phase geom n t) (snd (spin_back rf geom af0 bf0 n (length rf - 1 - t)))"

text \<open>The value the pass with index \<open>t\<close> stores in \<open>drf[t]\<close>.\<close>

definition drf_entry :: "complex list \<Rightarrow> geometry \<Rightarrow> complex list option \<Rightarrow> complex list
    \<Rightarrow> complex list \<Rightarrow> complex list \<Rightarrow> nat \<Rightarrow> complex" where
  "drf_entry rf geom auxa auxb af0 bf0 t =
     sum_list (map (\<lambda>n. term_b (auxb ! n) (spin_fw rf geom af0 bf0 n t)
                           (spin_bw rf geom af0 bf0 n t)) [0..<nspins geom])
     + (case auxa of None \<Rightarrow> 0
        | Some aa \<Rightarrow> sum_list (map (\<lambda>n. term_a (aa ! n) (spin_fw rf geom af0 bf0 n t)
                           (spin_bw rf geom af0 bf0 n t)) [0..<nspins geom]))"

text \<open>
  The shapes the interface asks for: \<open>auxb\<close>, \<open>af\<close>, \<open>bf\<close> and, when present,
  \<open>auxa\<close> hold one entry per spin.
\<close>

definition shapes_ok :: "geometry \<Rightarrow> complex list option \<Rightarrow> complex list \<Rightarrow> complex list
    \<Rightarrow> complex list \<Rightarrow> bool" where
  "shapes_ok geom auxa auxb af0 bf0 \<longleftrightarrow>
     length auxb = nspins geom \<and> length af0 = nspins geom \<and> length bf0 = nspins geom \<and>
     (case auxa of None \<Rightarrow> True | Some aa \<Rightarrow> length aa = nspins geom)"

text \<open>
  The matrix \<open>[[\<alpha>, -conj(\<beta>)], [\<beta>, conj(\<alpha>)]]\<close> with first column \<open>A = (\<alpha>, \<beta>)\<close>, applied
  to a spinor.
\<close>

definition su2 :: "spinor \<Rightarrow> spinor \<Rightarrow> spinor" where
  "su2 A p = (fst A * fst p - cnj (snd A) * snd p, snd A * fst p + cnj (fst A) * snd p)"

text \<open>A 1-D array with a trailing dimension of size 1 added: \<open>x[:, None]\<close>.\<close>

definition as_column :: "real list \<Rightarrow> array2" where
  "as_column xs = \<lparr>ncols = 1, rows = map (\<lambda>v. [v]) xs\<rparr>"

section \<open>The loss and its derivatives\<close>

text \<open>A spinor multiplied by a complex number.\<close>

definition scale :: "complex \<Rightarrow> spinor \<Rightarrow> spinor" where
  "scale c p = (c * fst p, c * snd p)"

text \<open>
  One step of the reference recurrence for spin \<open>n\<close>, and \<open>m\<close> of its steps from
  step \<open>j\<close> on, started from any spinor.
\<close>

definition spec_step :: "complex list \<Rightarrow> geometry \<Rightarrow> nat \<Rightarrow> nat \<Rightarrow> spinor \<Rightarrow> spinor" where
  "spec_step rf geom n t p =
     (let q = spec_rotate (rf ! t) p
      in (fst q, snd q * exp (- (\<i> * complex_of_real (spec_phase geom n t)))))"

primrec spin_run :: "complex list \<Rightarrow> geometry \<Rightarrow> nat \<Rightarrow> nat \<Rightarrow> nat \<Rightarrow> spinor \<Rightarrow> spinor" where
  "spin_run rf geom n j 0 p = p"
| "spin_run rf geom n j (Suc m) p = spec_step rf geom n (j + m) (spin_run rf geom n j m p)"

text \<open>
  The scalar loss of the specification for a final state \<open>(a, b)\<close>:
  \<open>Re(conj(auxb) b)\<close> summed over the spins, plus \<open>Re(conj(auxa) a)\<close> summed over the
  spins when \<open>auxa\<close> is present.
\<close>

definition loss :: "complex list option \<Rightarrow> complex list \<Rightarrow> complex list \<times> complex list \<Rightarrow> real" where
  "loss auxa auxb ab =
     sum_list (map2 (\<lambda>w v. Re (cnj w * v)) auxb (snd ab))
     + (case auxa of None \<Rightarrow> 0
        | Some aa \<Rightarrow> sum_list (map2 (\<lambda>w v. Re (cnj w * v)) aa (fst ab)))"

text \<open>
  The two pairs the forward simulation has to offer: the corrected pair \<open>blochsim\<close>
  returns, and the raw pair its loop ends with, before the total phase accrual.
\<close>

definition forward_pair :: "bool \<Rightarrow> complex list \<Rightarrow> geometry \<Rightarrow> error + complex list \<times> complex list" where
  "forward_pair corrected rf geom =
     (if corrected then blochsim rf geom else bloch_iter rf geom (length rf))"

text \<open>
  The loss as a function of the value \<open>v\<close> of the RF sample \<open>t\<close>, the other samples
  as in \<open>rf\<close>, evaluated at the corrected or at the raw final state.
\<close>

definition loss_at :: "bool \<Rightarrow> complex list \<Rightarrow> geometry \<Rightarrow> complex list option \<Rightarrow> complex list
    \<Rightarrow> nat \<Rightarrow> complex \<Rightarrow> real" where
  "loss_at corrected rf geom auxa auxb t v =
     (case forward_pair corrected (rf[t := v]) geom of
        Inl e \<Rightarrow> 0
      | Inr ab \<Rightarrow> loss auxa auxb ab)"

text \<open>The factor between the raw pair and the pair \<open>forward_pair\<close> gives, for spin \<open>n\<close>.\<close>

definition out_phase :: "bool \<Rightarrow> geometry \<Rightarrow> nat \<Rightarrow> complex" where
  "out_phase corrected geom n =
     (if corrected then exp (\<i> / 2 * complex_of_real (spec_total geom n)) else 1)"

text \<open>
  \<open>d\<close> is the Wirtinger derivative of the real function \<open>f\<close> of a complex variable at
  \<open>z\<close>: \<open>d = (\<partial>f/\<partial>x - i \<partial>f/\<partial>y) / 2\<close> for the partial derivatives along the real and
  the imaginary axis.
\<close>

definition wirtinger :: "(complex \<Rightarrow> real) \<Rightarrow> complex \<Rightarrow> complex \<Rightarrow> bool" where
  "wirtinger f z d \<longleftrightarrow>
     (\<exists>dx dy. ((\<lambda>e. f (z + complex_of_real e)) has_real_derivative dx) (at 0)
        \<and> ((\<lambda>e. f (z + \<i> * complex_of_real e)) has_real_derivative dy) (at 0)
        \<and> d = (complex_of_real dx - \<i> * complex_of_real dy) / 2)"

section \<open>Basic facts\<close>

lemma ebind_Inr [simp]: "ebind (Inr v) f = f v"
  by (simp add: ebind_def)

lemma ebind_Inl [simp]: "ebind (Inl e) f = Inl e"
  by (simp add: ebind_def)

lemma bop_tab:
  "bop f (map g [0..<N]) (map h [0..<N]) = Inr (map (\<lambda>n. f (g n) (h n)) [0..<N])"
  by (auto simp: bop_def intro!: nth_equalityI)

lemma map_tab: "map f xs = map (\<lambda>n. f (xs ! n)) [0..<length xs]"
  by (auto intro!: nth_equalityI)

lemma rf_S_sgn: "rf_S r = \<i> * sgn r * complex_of_real (sin (cmod r / 2))"
proof (cases "r = 0")
  case True
  then show ?thesis by (simp add: rf_S_def)
next
  case False
  have "exp (\<i> * complex_of_real (Arg r)) = cis (Arg r)"
    by (simp add: cis_conv_exp)
  then show ?thesis
    using cis_Arg[OF False] by (simp add: rf_S_def)
qed

lemma rf_unit: "(rf_C r)\<^sup>2 + (cmod (rf_S r))\<^sup>2 = 1"
proof (cases "r = 0")
  case True
  then show ?thesis by (simp add: rf_S_sgn rf_C_def)
next
  case False
  then have "cmod (rf_S r) = \<bar>sin (cmod r / 2)\<bar>"
    by (simp add: rf_S_sgn norm_mult norm_sgn)
  then show ?thesis by (simp add: rf_C_def)
qed

lemma rf_unit_cnj:
  "complex_of_real (rf_C r) * complex_of_real (rf_C r) + rf_S r * cnj (rf_S r) = 1"
proof -
  have "rf_S r * cnj (rf_S r) = complex_of_real ((cmod (rf_S r))\<^sup>2)"
    by (simp add: complex_norm_square[symmetric])
  then show ?thesis
    using rf_unit[of r] by (metis of_real_add of_real_mult of_real_1 power2_eq_square)
qed

lemma rf_C_pi: "rf_C (complex_of_real pi) = 0"
  by (simp add: rf_C_def)

lemma rf_S_pi: "rf_S (complex_of_real pi) = \<i>"
  by (simp add: rf_S_sgn sgn_eq)

lemma dot_scale:
  "sum_list (map2 (\<lambda>xv gv. c * complex_of_real xv * complex_of_real gv) u v)
     = c * complex_of_real (dot u v)"
  unfolding dot_def
proof (induction u arbitrary: v)
  case Nil
  then show ?case by simp
next
  case (Cons a u)
  then show ?case by (cases v) (simp_all add: algebra_simps)
qed

lemma grad_phase_ok:
  assumes "wf_geom geom" "mm < steps geom"
  shows "grad_phase c geom mm
    = Inr (map (\<lambda>n. exp (c * complex_of_real (spec_phase geom n mm))) [0..<nspins geom])"
proof (cases geom)
  case (Geom1 x g)
  then show ?thesis
    using assms by (auto simp: index_def mult.assoc intro!: nth_equalityI)
next
  case (GeomN x g)
  with assms have "rows g ! mm \<in> set (rows g)" by simp
  with assms GeomN have len: "ncols x = length (rows g ! mm)"
    by (simp add: wf_array2_def)
  show ?thesis
    using assms GeomN len
    by (auto simp: index_def matvec_def dot_scale intro!: nth_equalityI)
qed

lemma grad_phase_index:
  assumes "\<not> mm < steps geom"
  shows "grad_phase c geom mm = Inl IndexError"
  using assms by (cases geom) (simp_all add: index_def)

lemma sum_list_nth_sum: "sum_list (xs::real list) = (\<Sum>t<length xs. xs ! t)"
  by (simp add: sum_list_sum_nth atLeast0LessThan)

lemma col_sums_spec:
  "col_sums g = map (\<lambda>d. \<Sum>t<length (rows g). rows g ! t ! d) [0..<ncols g]"
  by (simp add: col_sums_def sum_list_sum_nth atLeast0LessThan)

lemma matvec_ok:
  "ncols x = length v \<Longrightarrow>
     matvec c x v = Inr (map (\<lambda>row. c * complex_of_real (dot row v)) (rows x))"
  by (simp add: matvec_def dot_scale)

lemma total_phase_ok:
  assumes "wf_geom geom"
  shows "total_phase geom
    = Inr (map (\<lambda>n. exp (\<i> / 2 * complex_of_real (spec_total geom n))) [0..<nspins geom])"
proof (cases geom)
  case (Geom1 x g)
  then show ?thesis
    by (auto simp: sum_list_nth_sum mult.assoc intro!: nth_equalityI)
next
  case (GeomN x g)
  have "length (col_sums g) = ncols g" by (simp add: col_sums_def)
  then show ?thesis
    using assms GeomN
    by (auto simp: matvec_ok col_sums_spec[symmetric] intro!: nth_equalityI)
qed

lemma apply_rf_tab:
  "apply_rf r (map (\<lambda>n. fst (p n)) [0..<N], map (\<lambda>n. snd (p n)) [0..<N])
     = Inr (map (\<lambda>n. fst (spec_rotate r (p n))) [0..<N],
            map (\<lambda>n. snd (spec_rotate r (p n))) [0..<N])"
  by (simp add: apply_rf_def spec_rotate_def Let_def bop_tab o_def rf_C_def rf_S_def)

lemma bloch_step_tab:
  assumes "wf_geom geom" "mm < steps geom"
  shows "bloch_step rf geom mm (map (\<lambda>n. fst (p n)) [0..<nspins geom], map (\<lambda>n. snd (p n)) [0..<nspins geom])
     = Inr (map (\<lambda>n. fst (spec_rotate (rf ! mm) (p n))) [0..<nspins geom],
            map (\<lambda>n. snd (spec_rotate (rf ! mm) (p n)) * exp (- (\<i> * complex_of_real (spec_phase geom n mm)))) [0..<nspins geom])"
  by (simp add: bloch_step_def apply_rf_tab apply_gradient_def grad_phase_ok[OF assms] bop_tab)

lemma bloch_iter_spec:
  assumes "wf_geom geom" "k \<le> steps geom"
  shows "bloch_iter rf geom k
     = Inr (map (\<lambda>n. fst (spec_iter rf geom n k)) [0..<nspins geom],
            map (\<lambda>n. snd (spec_iter rf geom n k)) [0..<nspins geom])"
  using assms(2)
proof (induction k)
  case 0
  then show ?case by (auto intro!: nth_equalityI)
next
  case (Suc k)
  then have "k < steps geom" by simp
  with Suc show ?case
    by (simp add: bloch_step_tab[OF assms(1)] Let_def)
qed

lemma blochsim_ok:
  assumes "wf_geom geom" "length rf \<le> steps geom"
  shows "blochsim rf geom = Inr (blochsim_spec rf geom)"
  by (simp add: blochsim_def bloch_iter_spec[OF assms] apply_total_def total_phase_ok[OF assms(1)]
      bop_tab blochsim_spec_def spec_final_def Let_def)

lemma bloch_iter_short:
  assumes "wf_geom geom" "steps geom < k"
  shows "bloch_iter rf geom k = Inl IndexError"
  using assms(2)
proof (induction k)
  case 0 then show ?case by simp
next
  case (Suc k)
  show ?case
  proof (cases "steps geom < k")
    case True
    with Suc show ?thesis by simp
  next
    case False
    with Suc.prems have k: "k = steps geom" by simp
    show ?thesis
      by (simp add: bloch_iter_spec[OF assms(1)] k bloch_step_def apply_rf_tab
          apply_gradient_def grad_phase_index)
  qed
qed

lemma spec_rotate_rf:
  "spec_rotate r p = (fst p * complex_of_real (rf_C r) - snd p * cnj (rf_S r),
                      fst p * rf_S r + snd p * complex_of_real (rf_C r))"
  by (simp add: spec_rotate_def Let_def rf_C_def rf_S_def)

lemma norm2_complex: "complex_of_real ((cmod u)\<^sup>2 + (cmod v)\<^sup>2) = u * cnj u + v * cnj v"
  using complex_norm_square[of u] complex_norm_square[of v] by simp

lemma su2_norm:
  assumes "c * cnj c + s * cnj s = 1"
  shows "(cmod (a * c - b * cnj s))\<^sup>2 + (cmod (a * s + b * cnj c))\<^sup>2 = (cmod a)\<^sup>2 + (cmod b)\<^sup>2"
proof -
  have "complex_of_real ((cmod (a * c - b * cnj s))\<^sup>2 + (cmod (a * s + b * cnj c))\<^sup>2)
      = (a * cnj a + b * cnj b) * (c * cnj c + s * cnj s)"
    unfolding norm2_complex by (simp add: algebra_simps)
  also have "\<dots> = complex_of_real ((cmod a)\<^sup>2 + (cmod b)\<^sup>2)"
    unfolding norm2_complex assms by simp
  finally show ?thesis using of_real_eq_iff by blast
qed

lemma spec_rotate_norm:
  "(cmod (fst (spec_rotate r p)))\<^sup>2 + (cmod (snd (spec_rotate r p)))\<^sup>2
     = (cmod (fst p))\<^sup>2 + (cmod (snd p))\<^sup>2"
  using su2_norm[of "complex_of_real (rf_C r)" "rf_S r" "fst p" "snd p"] rf_unit_cnj[of r]
  by (simp add: spec_rotate_rf)

lemma spec_iter_norm:
  "(cmod (fst (spec_iter rf geom n k)))\<^sup>2 + (cmod (snd (spec_iter rf geom n k)))\<^sup>2 = 1"
proof (induction k)
  case 0 then show ?case by simp
next
  case (Suc k)
  have "cmod (exp (- (\<i> * complex_of_real (spec_phase geom n k)))) = 1"
    by simp
  then show ?case using Suc spec_rotate_norm[of "rf ! k" "spec_iter rf geom n k"]
    by (simp add: Let_def norm_mult)
qed

lemma spec_final_norm:
  "(cmod (fst (spec_final rf geom n)))\<^sup>2 + (cmod (snd (spec_final rf geom n)))\<^sup>2 = 1"
proof -
  have "cmod (exp (\<i> / 2 * complex_of_real (spec_total geom n))) = 1"
    by simp
  then show ?thesis using spec_iter_norm[of rf geom n "length rf"]
    by (simp add: spec_final_def Let_def norm_mult)
qed

lemma spec_iter_zero:
  assumes "\<forall>r \<in> set rf. r = 0" "k \<le> length rf"
  shows "spec_iter rf geom n k = (1, 0)"
  using assms(2)
proof (induction k)
  case 0 then show ?case by simp
next
  case (Suc k)
  then have "rf ! k = 0" using assms(1) by simp
  with Suc show ?case by (simp add: spec_rotate_def Let_def)
qed

lemma unitary_tab:
  "(\<And>n. n < N \<Longrightarrow> (cmod (fst (p n)))\<^sup>2 + (cmod (snd (p n)))\<^sup>2 = 1) \<Longrightarrow>
   unitary N (map (\<lambda>n. fst (p n)) [0..<N], map (\<lambda>n. snd (p n)) [0..<N])"
  by (simp add: unitary_def)

section \<open>The forward simulation\<close>

text \<open>
  Claim C2. For well-formed \<open>x\<close> and \<open>g\<close> with as many gradient steps as RF samples,
  \<open>blochsim\<close> returns, without error, exactly the result of the reference recurrence
  of the specification: for every spin, \<open>a = 1\<close>, \<open>b = 0\<close> at the start, the RF
  rotation and then the phase \<open>exp(-i (x . g[t]))\<close> on \<open>b\<close> alone at each step, and the
  factor \<open>exp(i/2 x . \<Sum>\<^sub>t g[t])\<close> on both at the end.
\<close>

theorem blochsim_refines_spec:
  assumes "wf_geom geom" and "steps geom = length rf"
  shows "blochsim rf geom = Inr (blochsim_spec rf geom)"
  using blochsim_ok[of geom rf] assms by simp

theorem blochsim_refines_spec_witness:
  "wf_geom (Geom1 [0] [0]) \<and> steps (Geom1 [0] [0]) = length [complex_of_real pi]
   \<and> blochsim [complex_of_real pi] (Geom1 [0] [0])
       = Inr (blochsim_spec [complex_of_real pi] (Geom1 [0] [0]))
   \<and> blochsim_spec [complex_of_real pi] (Geom1 [0] [0]) = ([0], [\<i>])"
  using blochsim_refines_spec[of "Geom1 [0] [0]" "[complex_of_real pi]"]
  by (simp add: blochsim_spec_def spec_final_def spec_rotate_rf rf_C_pi rf_S_pi Let_def)

text \<open>
  Claim C3. For well-formed inputs of matching shape, every state of \<open>blochsim\<close> is a
  unit spinor for every spin: the state after each number \<open>k\<close> of passes of the loop
  (the initial state included), the state in the middle of each pass, after the RF
  rotation and before the gradient phase, and the returned state after the final phase
  correction.
\<close>

theorem blochsim_unitarity:
  assumes "wf_geom geom" and "steps geom = length rf"
  shows "(\<forall>k\<le>length rf. \<exists>st. bloch_iter rf geom k = Inr st \<and> unitary (nspins geom) st)
     \<and> (\<forall>k<length rf. \<exists>st st'. bloch_iter rf geom k = Inr st
            \<and> apply_rf (rf ! k) st = Inr st' \<and> unitary (nspins geom) st')
     \<and> (\<exists>st. blochsim rf geom = Inr st \<and> unitary (nspins geom) st)"
proof (intro conjI allI impI)
  fix k assume "k \<le> length rf"
  then show "\<exists>st. bloch_iter rf geom k = Inr st \<and> unitary (nspins geom) st"
    using assms by (simp add: bloch_iter_spec unitary_tab spec_iter_norm)
next
  fix k assume "k < length rf"
  then show "\<exists>st st'. bloch_iter rf geom k = Inr st
            \<and> apply_rf (rf ! k) st = Inr st' \<and> unitary (nspins geom) st'"
    using assms
    by (simp add: bloch_iter_spec apply_rf_tab unitary_tab spec_rotate_norm spec_iter_norm)
next
  show "\<exists>st. blochsim rf geom = Inr st \<and> unitary (nspins geom) st"
    using assms
    by (simp add: blochsim_ok blochsim_spec_def unitary_tab spec_final_norm)
qed

theorem blochsim_unitarity_witness:
  "wf_geom (Geom1 [1] [0]) \<and> steps (Geom1 [1] [0]) = length [0::complex]
   \<and> (\<exists>st. blochsim [0] (Geom1 [1] [0]) = Inr st \<and> unitary 1 st)
   \<and> blochsim [0] (Geom1 [1] [0]) = Inr ([1], [0])"
  using blochsim_unitarity[of "Geom1 [1] [0]" "[0]"]
  by (simp add: blochsim_ok blochsim_spec_def spec_final_def spec_rotate_def Let_def)

text \<open>
  Claim C5, as stated, fails: \<open>blochsim\<close> checks no length. With one RF sample and
  two gradient samples it returns a result.
\<close>

theorem blochsim_surplus_gradient_counterexample:
  "length [1::real, 2] \<noteq> length [0::complex]
   \<and> blochsim [0] (Geom1 [0] [1, 2]) = Inr ([1], [0])"
  by (simp add: blochsim_ok blochsim_spec_def spec_final_def spec_rotate_def Let_def)

text \<open>
  Claim C5, amended. For well-formed \<open>x\<close> and \<open>g\<close>: when the gradient has fewer steps
  than the RF pulse has samples, \<open>blochsim\<close> raises an \<open>IndexError\<close> (from \<open>g[mm]\<close>,
  once the loop reaches \<open>mm = len(g)\<close>); when it has as many or more, no error is
  raised.
\<close>

theorem blochsim_gradient_length:
  assumes "wf_geom geom"
  shows "(steps geom < length rf \<longrightarrow> blochsim rf geom = Inl IndexError)
     \<and> (length rf \<le> steps geom \<longrightarrow> (\<exists>st. blochsim rf geom = Inr st))"
proof (intro conjI impI)
  assume "steps geom < length rf"
  then show "blochsim rf geom = Inl IndexError"
    using assms by (simp add: blochsim_def bloch_iter_short)
next
  assume "length rf \<le> steps geom"
  then show "\<exists>st. blochsim rf geom = Inr st"
    using assms by (simp add: blochsim_ok)
qed

theorem blochsim_gradient_length_witness:
  "wf_geom (Geom1 [0] []) \<and> steps (Geom1 [0] []) < length [0::complex]
   \<and> blochsim [0] (Geom1 [0] []) = Inl IndexError
   \<and> wf_geom (Geom1 [0] [1, 2]) \<and> length [0::complex] \<le> steps (Geom1 [0] [1, 2])
   \<and> (\<exists>st. blochsim [0] (Geom1 [0] [1, 2]) = Inr st)"
  using blochsim_gradient_length[of "Geom1 [0] []" "[0]"]
    blochsim_gradient_length[of "Geom1 [0] [1, 2]" "[0]"]
  by simp

text \<open>
  Claim C7. For well-formed \<open>x\<close> and \<open>g\<close> of matching shape and an RF pulse that is
  zero at every sample, \<open>blochsim\<close> returns \<open>b = 0\<close> and \<open>a = exp(i \<phi>)\<close> for every spin,
  with the real phase \<open>\<phi> = (x . \<Sum>\<^sub>t g[t]) / 2\<close> fixed by the position and the summed
  gradient alone.
\<close>

theorem blochsim_zero_pulse:
  assumes "wf_geom geom" and "steps geom = length rf" and "\<forall>r \<in> set rf. r = 0"
  shows "blochsim rf geom
     = Inr (map (\<lambda>n. cis (spec_total geom n / 2)) [0..<nspins geom],
            replicate (nspins geom) 0)"
proof -
  have "spec_final rf geom n = (cis (spec_total geom n / 2), 0)" for n
    using spec_iter_zero[OF assms(3), of "length rf" geom n]
    by (simp add: spec_final_def Let_def cis_conv_exp)
  then show ?thesis
    using blochsim_ok[of geom rf] assms(1,2)
    by (auto simp: blochsim_spec_def intro!: nth_equalityI)
qed

theorem blochsim_zero_pulse_witness:
  "wf_geom (Geom1 [1] [pi, pi]) \<and> steps (Geom1 [1] [pi, pi]) = length [0::complex, 0]
   \<and> set [0::complex, 0] = {0}
   \<and> blochsim [0, 0] (Geom1 [1] [pi, pi]) = Inr ([- 1], [0])"
  using blochsim_zero_pulse[of "Geom1 [1] [pi, pi]" "[0, 0]"]
  by simp

section \<open>The reverse pass\<close>

lemma strip_blip_tab:
  "strip_blip (map z [0..<N]) (map (\<lambda>n. fst (F n)) [0..<N], map (\<lambda>n. snd (F n)) [0..<N])
    = Inr (map (\<lambda>n. fst (F n) * cnj (z n)) [0..<N], map (\<lambda>n. snd (F n) * z n) [0..<N])"
  by (simp add: strip_blip_def bop_tab o_def)

lemma add_blip_tab:
  "add_blip (map z [0..<N]) (map (\<lambda>n. fst (A n)) [0..<N], map (\<lambda>n. snd (A n)) [0..<N])
    = Inr (map (\<lambda>n. fst (A n) * z n) [0..<N], map (\<lambda>n. snd (A n) * z n) [0..<N])"
  by (simp add: add_blip_def bop_tab o_def)

lemma strip_rf_tab:
  "strip_rf r (map a [0..<N], map b [0..<N])
    = Inr (map (\<lambda>n. a n * complex_of_real (rf_C r) + b n * cnj (rf_S r)) [0..<N],
           map (\<lambda>n. - a n * rf_S r + b n * complex_of_real (rf_C r)) [0..<N])"
  by (simp add: strip_rf_def bop_tab o_def Let_def)

lemma add_rf_tab:
  "add_rf r (map a [0..<N], map b [0..<N])
    = Inr (map (\<lambda>n. a n * complex_of_real (rf_C r) - cnj (b n) * rf_S r) [0..<N],
           map (\<lambda>n. b n * complex_of_real (rf_C r) + cnj (a n) * rf_S r) [0..<N])"
  by (simp add: add_rf_def bop_tab o_def Let_def)

lemma grad_b_tab:
  "grad_b (map wb [0..<N]) (map (\<lambda>n. fst (F n)) [0..<N], map (\<lambda>n. snd (F n)) [0..<N])
      (map (\<lambda>n. fst (A n)) [0..<N], map (\<lambda>n. snd (A n)) [0..<N])
    = Inr (sum_list (map (\<lambda>n. term_b (wb n) (F n) (A n)) [0..<N]))"
  by (simp add: grad_b_def bop_tab o_def term_b_def)

lemma grad_a_tab:
  "grad_a (map wa [0..<N]) (map (\<lambda>n. fst (F n)) [0..<N], map (\<lambda>n. snd (F n)) [0..<N])
      (map (\<lambda>n. fst (A n)) [0..<N], map (\<lambda>n. snd (A n)) [0..<N])
    = Inr (sum_list (map (\<lambda>n. term_a (wa n) (F n) (A n)) [0..<N]))"
  by (simp add: grad_a_def bop_tab o_def term_a_def)

lemma deriv_step_unfold:
  assumes "wf_geom geom" "mm < steps geom"
  shows "deriv_step rf geom auxa auxb mm
      \<lparr>drf = d, af = map (\<lambda>n. fst (fst (s n))) [0..<nspins geom],
       bf = map (\<lambda>n. snd (fst (s n))) [0..<nspins geom],
       ar = map (\<lambda>n. fst (snd (s n))) [0..<nspins geom],
       br = map (\<lambda>n. snd (snd (s n))) [0..<nspins geom]\<rparr>
    = (let F = (\<lambda>n. back_fw (rf ! mm) (spec_phase geom n mm) (fst (s n)));
           A = (\<lambda>n. back_blip (spec_phase geom n mm) (snd (s n)));
           fw = (map (\<lambda>n. fst (F n)) [0..<nspins geom], map (\<lambda>n. snd (F n)) [0..<nspins geom]);
           bw = (map (\<lambda>n. fst (A n)) [0..<nspins geom], map (\<lambda>n. snd (A n)) [0..<nspins geom])
       in ebind (grad_b auxb fw bw) (\<lambda>db.
          ebind (case auxa of None \<Rightarrow> Inr db
                 | Some aa \<Rightarrow> ebind (grad_a aa fw bw) (\<lambda>da. Inr (db + da))) (\<lambda>v.
          Inr \<lparr>drf = d[mm := v], af = fst fw, bf = snd fw,
               ar = map (\<lambda>n. fst (back_rf (rf ! mm) (A n))) [0..<nspins geom],
               br = map (\<lambda>n. snd (back_rf (rf ! mm) (A n))) [0..<nspins geom]\<rparr>)))"
proof -
  let ?N = "nspins geom"
  let ?F = "\<lambda>n. back_fw (rf ! mm) (spec_phase geom n mm) (fst (s n))"
  let ?A = "\<lambda>n. back_blip (spec_phase geom n mm) (snd (s n))"
  let ?z = "\<lambda>n. exp (\<i> * complex_of_real (spec_phase geom n mm) / 2)"
  have z: "grad_phase (\<i> / 2) geom mm = Inr (map ?z [0..<?N])"
    using grad_phase_ok[OF assms(1,2), of "\<i> / 2"] by simp
  have fw1: "strip_blip (map ?z [0..<?N])
       (map (\<lambda>n. fst (fst (s n))) [0..<?N], map (\<lambda>n. snd (fst (s n))) [0..<?N])
     = Inr (map (\<lambda>n. fst (fst (s n)) * cnj (?z n)) [0..<?N],
            map (\<lambda>n. snd (fst (s n)) * ?z n) [0..<?N])"
    by (rule strip_blip_tab)
  have bw1: "add_blip (map ?z [0..<?N])
       (map (\<lambda>n. fst (snd (s n))) [0..<?N], map (\<lambda>n. snd (snd (s n))) [0..<?N])
     = Inr (map (\<lambda>n. fst (?A n)) [0..<?N], map (\<lambda>n. snd (?A n)) [0..<?N])"
    by (simp add: add_blip_tab back_blip_def Let_def)
  have fw2: "strip_rf (rf ! mm) (map (\<lambda>n. fst (fst (s n)) * cnj (?z n)) [0..<?N],
            map (\<lambda>n. snd (fst (s n)) * ?z n) [0..<?N])
     = Inr (map (\<lambda>n. fst (?F n)) [0..<?N], map (\<lambda>n. snd (?F n)) [0..<?N])"
    by (simp add: strip_rf_tab back_fw_def Let_def)
  have bw2: "add_rf (rf ! mm) (map (\<lambda>n. fst (?A n)) [0..<?N], map (\<lambda>n. snd (?A n)) [0..<?N])
     = Inr (map (\<lambda>n. fst (back_rf (rf ! mm) (?A n))) [0..<?N],
            map (\<lambda>n. snd (back_rf (rf ! mm) (?A n))) [0..<?N])"
    by (simp add: add_rf_tab back_rf_def Let_def)
  show ?thesis
    unfolding deriv_step_def by (simp add: z fw1 bw1 fw2 bw2 Let_def)
qed

lemma list_tab: "length xs = N \<Longrightarrow> xs = map (\<lambda>n. xs ! n) [0..<N]"
  by (auto intro!: nth_equalityI)

lemma deriv_step_tab:
  assumes "wf_geom geom" "mm < steps geom" "length auxb = nspins geom"
    and "case auxa of None \<Rightarrow> True | Some aa \<Rightarrow> length aa = nspins geom"
  shows "deriv_step rf geom auxa auxb mm
      \<lparr>drf = d, af = map (\<lambda>n. fst (fst (s n))) [0..<nspins geom],
       bf = map (\<lambda>n. snd (fst (s n))) [0..<nspins geom],
       ar = map (\<lambda>n. fst (snd (s n))) [0..<nspins geom],
       br = map (\<lambda>n. snd (snd (s n))) [0..<nspins geom]\<rparr>
    = Inr \<lparr>drf = d[mm :=
              sum_list (map (\<lambda>n. term_b (auxb ! n)
                  (back_fw (rf ! mm) (spec_phase geom n mm) (fst (s n)))
                  (back_blip (spec_phase geom n mm) (snd (s n)))) [0..<nspins geom])
              + (case auxa of None \<Rightarrow> 0
                 | Some aa \<Rightarrow> sum_list (map (\<lambda>n. term_a (aa ! n)
                  (back_fw (rf ! mm) (spec_phase geom n mm) (fst (s n)))
                  (back_blip (spec_phase geom n mm) (snd (s n)))) [0..<nspins geom]))],
       af = map (\<lambda>n. fst (back_fw (rf ! mm) (spec_phase geom n mm) (fst (s n)))) [0..<nspins geom],
       bf = map (\<lambda>n. snd (back_fw (rf ! mm) (spec_phase geom n mm) (fst (s n)))) [0..<nspins geom],
       ar = map (\<lambda>n. fst (back_rf (rf ! mm) (back_blip (spec_phase geom n mm) (snd (s n)))))
              [0..<nspins geom],
       br = map (\<lambda>n. snd (back_rf (rf ! mm) (back_blip (spec_phase geom n mm) (snd (s n)))))
              [0..<nspins geom]\<rparr>"
proof -
  let ?N = "nspins geom"
  let ?F = "\<lambda>n. back_fw (rf ! mm) (spec_phase geom n mm) (fst (s n))"
  let ?A = "\<lambda>n. back_blip (spec_phase geom n mm) (snd (s n))"
  have gb: "grad_b auxb (map (\<lambda>n. fst (?F n)) [0..<?N], map (\<lambda>n. snd (?F n)) [0..<?N])
       (map (\<lambda>n. fst (?A n)) [0..<?N], map (\<lambda>n. snd (?A n)) [0..<?N])
     = Inr (sum_list (map (\<lambda>n. term_b (auxb ! n) (?F n) (?A n)) [0..<?N]))"
    using grad_b_tab[of "\<lambda>n. auxb ! n" ?N ?F ?A] list_tab[OF assms(3)] by simp
  have ga: "grad_a aa (map (\<lambda>n. fst (?F n)) [0..<?N], map (\<lambda>n. snd (?F n)) [0..<?N])
       (map (\<lambda>n. fst (?A n)) [0..<?N], map (\<lambda>n. snd (?A n)) [0..<?N])
     = Inr (sum_list (map (\<lambda>n. term_a (aa ! n) (?F n) (?A n)) [0..<?N]))"
    if "length aa = ?N" for aa
    using grad_a_tab[of "\<lambda>n. aa ! n" ?N ?F ?A] list_tab[OF that] by simp
  show ?thesis
  proof (cases auxa)
    case None
    then show ?thesis
      unfolding deriv_step_unfold[OF assms(1,2)] by (simp add: gb Let_def)
  next
    case (Some aa)
    with assms(4) have "length aa = ?N" by simp
    from ga[OF this] Some show ?thesis
      unfolding deriv_step_unfold[OF assms(1,2)] by (simp add: gb Let_def)
  qed
qed

lemma drf_update:
  assumes "k < Nt" "mm = Nt - 1 - k" "v = E mm"
  shows "(map (\<lambda>t. if Nt - k \<le> t then E t else (0::complex)) [0..<Nt])[mm := v]
       = map (\<lambda>t. if Nt - Suc k \<le> t then E t else 0) [0..<Nt]"
  using assms by (auto intro!: nth_equalityI simp: nth_list_update)

lemma deriv_iter_tab:
  assumes "wf_geom geom" "length rf \<le> steps geom" "shapes_ok geom auxa auxb af0 bf0"
    and "k \<le> length rf"
  shows "deriv_iter rf geom auxa auxb af0 bf0 k
    = Inr \<lparr>drf = map (\<lambda>t. if length rf - k \<le> t
                             then drf_entry rf geom auxa auxb af0 bf0 t else 0) [0..<length rf],
       af = map (\<lambda>n. fst (fst (spin_back rf geom af0 bf0 n k))) [0..<nspins geom],
       bf = map (\<lambda>n. snd (fst (spin_back rf geom af0 bf0 n k))) [0..<nspins geom],
       ar = map (\<lambda>n. fst (snd (spin_back rf geom af0 bf0 n k))) [0..<nspins geom],
       br = map (\<lambda>n. snd (snd (spin_back rf geom af0 bf0 n k))) [0..<nspins geom]\<rparr>"
  using assms(4)
proof (induction k)
  case 0
  have "af0 = map (\<lambda>n. af0 ! n) [0..<nspins geom]" "bf0 = map (\<lambda>n. bf0 ! n) [0..<nspins geom]"
    using assms(3) by (auto simp: shapes_ok_def intro!: nth_equalityI)
  moreover have "length af0 = nspins geom" "length bf0 = nspins geom"
    using assms(3) by (auto simp: shapes_ok_def)
  ultimately show ?case
    by (auto intro!: nth_equalityI)
next
  case (Suc k)
  let ?mm = "length rf - 1 - k"
  from Suc.prems have k: "k < length rf" by simp
  then have mm: "?mm < steps geom" using assms(2) by simp
  have sh: "length auxb = nspins geom"
    "case auxa of None \<Rightarrow> True | Some aa \<Rightarrow> length aa = nspins geom"
    using assms(3) by (auto simp: shapes_ok_def)
  have idx: "length rf - 1 - ?mm = k" using k by simp
  have entry: "sum_list (map (\<lambda>n. term_b (auxb ! n)
                  (back_fw (rf ! ?mm) (spec_phase geom n ?mm) (fst (spin_back rf geom af0 bf0 n k)))
                  (back_blip (spec_phase geom n ?mm) (snd (spin_back rf geom af0 bf0 n k))))
                  [0..<nspins geom])
              + (case auxa of None \<Rightarrow> 0
                 | Some aa \<Rightarrow> sum_list (map (\<lambda>n. term_a (aa ! n)
                  (back_fw (rf ! ?mm) (spec_phase geom n ?mm) (fst (spin_back rf geom af0 bf0 n k)))
                  (back_blip (spec_phase geom n ?mm) (snd (spin_back rf geom af0 bf0 n k))))
                  [0..<nspins geom]))
        = drf_entry rf geom auxa auxb af0 bf0 ?mm"
    unfolding drf_entry_def spin_fw_def spin_bw_def idx ..
  have IH: "deriv_iter rf geom auxa auxb af0 bf0 k
    = Inr \<lparr>drf = map (\<lambda>t. if length rf - k \<le> t
                             then drf_entry rf geom auxa auxb af0 bf0 t else 0) [0..<length rf],
       af = map (\<lambda>n. fst (fst (spin_back rf geom af0 bf0 n k))) [0..<nspins geom],
       bf = map (\<lambda>n. snd (fst (spin_back rf geom af0 bf0 n k))) [0..<nspins geom],
       ar = map (\<lambda>n. fst (snd (spin_back rf geom af0 bf0 n k))) [0..<nspins geom],
       br = map (\<lambda>n. snd (snd (spin_back rf geom af0 bf0 n k))) [0..<nspins geom]\<rparr>"
    using Suc by simp
  show ?case
    unfolding deriv_iter.simps IH ebind_Inr
      deriv_step_tab[OF assms(1) mm sh, of rf _ "\<lambda>n. spin_back rf geom af0 bf0 n k"] entry
      drf_update[OF k refl refl]
    by (simp add: Let_def)
qed

lemma deriv_ok:
  assumes "wf_geom geom" "length rf \<le> steps geom" "shapes_ok geom auxa auxb af0 bf0"
  shows "deriv rf geom auxa auxb af0 bf0
    = Inr (map (drf_entry rf geom auxa auxb af0 bf0) [0..<length rf])"
  unfolding deriv_def deriv_iter_tab[OF assms order_refl] by simp

lemma back_blip_norm:
  "(cmod (fst (back_blip \<theta> A)))\<^sup>2 + (cmod (snd (back_blip \<theta> A)))\<^sup>2
     = (cmod (fst A))\<^sup>2 + (cmod (snd A))\<^sup>2"
proof -
  have "cmod (exp (\<i> / 2 * complex_of_real \<theta>)) = 1" by simp
  then show ?thesis by (simp add: back_blip_def Let_def norm_mult)
qed

lemma back_rf_norm:
  "(cmod (fst (back_rf r A)))\<^sup>2 + (cmod (snd (back_rf r A)))\<^sup>2
     = (cmod (fst A))\<^sup>2 + (cmod (snd A))\<^sup>2"
proof -
  have "(cmod (fst A * complex_of_real (rf_C r) - cnj (snd A) * cnj (cnj (rf_S r))))\<^sup>2
      + (cmod (fst A * cnj (rf_S r) + cnj (snd A) * cnj (complex_of_real (rf_C r))))\<^sup>2
      = (cmod (fst A))\<^sup>2 + (cmod (cnj (snd A)))\<^sup>2"
    by (rule su2_norm) (use rf_unit_cnj[of r] in \<open>simp add: mult.commute\<close>)
  moreover have "cmod (fst A * cnj (rf_S r) + cnj (snd A) * cnj (complex_of_real (rf_C r)))
      = cmod (snd A * complex_of_real (rf_C r) + cnj (fst A) * rf_S r)"
    by (metis add.commute complex_cnj_add complex_cnj_cnj complex_cnj_mult complex_mod_cnj)
  ultimately show ?thesis by (simp add: back_rf_def Let_def)
qed

lemma spin_back_norm:
  "(cmod (fst (snd (spin_back rf geom af0 bf0 n k))))\<^sup>2
     + (cmod (snd (snd (spin_back rf geom af0 bf0 n k))))\<^sup>2 = 1"
  by (induction k) (simp_all add: Let_def back_rf_norm back_blip_norm)

lemma su2_back_rf: "su2 (back_rf r A) p = su2 A (spec_rotate r p)"
  by (simp add: su2_def back_rf_def spec_rotate_rf Let_def algebra_simps)

lemma half_phase_cis: "exp (\<i> / 2 * complex_of_real \<theta>) = cis (\<theta> / 2)"
  by (simp add: cis_conv_exp)

lemma neg_half_phase_cis: "exp (- (\<i> / 2 * complex_of_real \<theta>)) = cis (- (\<theta> / 2))"
  by (simp add: cis_conv_exp)

lemma su2_back_blip:
  "su2 (back_blip \<theta> A) p
     = su2 A (fst p * exp (\<i> / 2 * complex_of_real \<theta>), snd p * exp (- (\<i> / 2 * complex_of_real \<theta>)))"
  unfolding su2_def back_blip_def Let_def half_phase_cis neg_half_phase_cis
  by (simp add: algebra_simps cis_cnj)

text \<open>
  Claim C10. For well-formed inputs of matching shapes, the backward pair of \<open>deriv\<close>
  is a unit spinor for every spin after every number \<open>k\<close> of passes of the reverse loop
  (the initial \<open>ar = 1\<close>, \<open>br = 0\<close> included), and also in the middle of each pass,
  after the gradient blip \<open>ar * z\<close>, \<open>br * z\<close> and before the RF update.
\<close>

theorem deriv_backward_unitarity:
  assumes "wf_geom geom" and "length rf \<le> steps geom"
    and "shapes_ok geom auxa auxb af0 bf0"
  shows "(\<forall>k\<le>length rf. \<exists>s. deriv_iter rf geom auxa auxb af0 bf0 k = Inr s
            \<and> unitary (nspins geom) (ar s, br s))
     \<and> (\<forall>k<length rf. \<exists>s z bw. deriv_iter rf geom auxa auxb af0 bf0 k = Inr s
            \<and> grad_phase (\<i> / 2) geom (length rf - 1 - k) = Inr z
            \<and> add_blip z (ar s, br s) = Inr bw \<and> unitary (nspins geom) bw)"
proof (intro conjI allI impI)
  fix k assume "k \<le> length rf"
  then show "\<exists>s. deriv_iter rf geom auxa auxb af0 bf0 k = Inr s
            \<and> unitary (nspins geom) (ar s, br s)"
    using unitary_tab[of "nspins geom" "\<lambda>n. snd (spin_back rf geom af0 bf0 n k)"]
    by (simp add: deriv_iter_tab[OF assms] spin_back_norm)
next
  fix k assume k: "k < length rf"
  let ?mm = "length rf - 1 - k"
  let ?A = "\<lambda>n. back_blip (spec_phase geom n ?mm) (snd (spin_back rf geom af0 bf0 n k))"
  from k assms(2) have mm: "?mm < steps geom" by simp
  have "add_blip (map (\<lambda>n. exp (\<i> / 2 * complex_of_real (spec_phase geom n ?mm))) [0..<nspins geom])
       (map (\<lambda>n. fst (snd (spin_back rf geom af0 bf0 n k))) [0..<nspins geom],
        map (\<lambda>n. snd (snd (spin_back rf geom af0 bf0 n k))) [0..<nspins geom])
     = Inr (map (\<lambda>n. fst (?A n)) [0..<nspins geom], map (\<lambda>n. snd (?A n)) [0..<nspins geom])"
    unfolding add_blip_tab by (simp add: back_blip_def Let_def)
  moreover have "unitary (nspins geom)
      (map (\<lambda>n. fst (?A n)) [0..<nspins geom], map (\<lambda>n. snd (?A n)) [0..<nspins geom])"
    by (rule unitary_tab) (simp add: back_blip_norm spin_back_norm)
  ultimately show "\<exists>s z bw. deriv_iter rf geom auxa auxb af0 bf0 k = Inr s
            \<and> grad_phase (\<i> / 2) geom ?mm = Inr z
            \<and> add_blip z (ar s, br s) = Inr bw \<and> unitary (nspins geom) bw"
    using k unfolding deriv_iter_tab[OF assms less_imp_le[OF k]] grad_phase_ok[OF assms(1) mm]
    by simp
qed

theorem deriv_backward_unitarity_witness:
  "wf_geom (Geom1 [0] [0]) \<and> length [0::complex] \<le> steps (Geom1 [0] [0])
   \<and> shapes_ok (Geom1 [0] [0]) None [1] [1] [0]
   \<and> (\<exists>s. deriv_iter [0] (Geom1 [0] [0]) None [1] [1] [0] 1 = Inr s
        \<and> unitary (nspins (Geom1 [0] [0])) (ar s, br s))"
proof -
  have h: "wf_geom (Geom1 [0] [0])" "length [0::complex] \<le> steps (Geom1 [0] [0])"
    "shapes_ok (Geom1 [0] [0]) None [1] [1] [0]"
    by (simp_all add: shapes_ok_def)
  from deriv_backward_unitarity[OF h]
  have "\<forall>k\<le>length [0::complex]. \<exists>s. deriv_iter [0] (Geom1 [0] [0]) None [1] [1] [0] k = Inr s
            \<and> unitary (nspins (Geom1 [0] [0])) (ar s, br s)"
    by (rule conjunct1)
  moreover have "1 \<le> length [0::complex]" by simp
  ultimately have "\<exists>s. deriv_iter [0] (Geom1 [0] [0]) None [1] [1] [0] 1 = Inr s
            \<and> unitary (nspins (Geom1 [0] [0])) (ar s, br s)"
    by blast
  with h show ?thesis by blast
qed

text \<open>
  Claim C9. For well-formed inputs of matching shapes, \<open>deriv\<close> with \<open>auxa = None\<close>
  raises no error and returns the same \<open>drf\<close> as the same call with \<open>auxa\<close> the
  all-zero array.
\<close>

theorem deriv_without_auxa:
  assumes "wf_geom geom" and "length rf \<le> steps geom"
    and "shapes_ok geom None auxb af0 bf0"
  shows "\<exists>d. deriv rf geom None auxb af0 bf0 = Inr d
     \<and> deriv rf geom (Some (replicate (nspins geom) 0)) auxb af0 bf0 = Inr d"
proof -
  have sh: "shapes_ok geom (Some (replicate (nspins geom) 0)) auxb af0 bf0"
    using assms(3) by (simp add: shapes_ok_def)
  have "drf_entry rf geom (Some (replicate (nspins geom) 0)) auxb af0 bf0 t
      = drf_entry rf geom None auxb af0 bf0 t" for t
  proof -
    have "sum_list (map (\<lambda>n. term_a (replicate (nspins geom) 0 ! n) (F n) (A n)) [0..<nspins geom]) = 0"
      for F A
    proof -
      have eq: "map (\<lambda>n. term_a (replicate (nspins geom) 0 ! n) (F n) (A n)) [0..<nspins geom]
          = map (\<lambda>n. 0) [0..<nspins geom]"
        by (rule map_cong) (auto simp: term_a_def)
      show ?thesis unfolding eq by simp
    qed
    then show ?thesis by (simp add: drf_entry_def)
  qed
  then show ?thesis
    unfolding deriv_ok[OF assms] deriv_ok[OF assms(1,2) sh] by simp
qed

theorem deriv_without_auxa_witness:
  "wf_geom (Geom1 [0] [0]) \<and> length [0::complex] \<le> steps (Geom1 [0] [0])
   \<and> shapes_ok (Geom1 [0] [0]) None [1] [1] [0]
   \<and> (\<exists>d. deriv [0] (Geom1 [0] [0]) None [1] [1] [0] = Inr d
        \<and> deriv [0] (Geom1 [0] [0]) (Some [0]) [1] [1] [0] = Inr d)"
  using deriv_without_auxa[of "Geom1 [0] [0]" "[0]" "[1]" "[1]" "[0]"]
  by (simp add: shapes_ok_def)

text \<open>
  Claim C4, as stated, fails: the update of the backward pair is not the forward
  update of \<open>blochsim\<close>. For \<open>rf[t] = \<pi>\<close> (so \<open>C = 0\<close>, \<open>S = i\<close>) and \<open>ar = i\<close>,
  \<open>br = 0\<close> the forward update gives \<open>br' = ar S = -1\<close>, the update of \<open>deriv\<close> gives
  \<open>br' = conj(ar) S = 1\<close>.
\<close>

theorem add_rf_not_forward_counterexample:
  "apply_rf (complex_of_real pi) ([\<i>], [0]) = Inr ([0], [- 1])
   \<and> add_rf (complex_of_real pi) ([\<i>], [0]) = Inr ([0], [1])"
  by (simp add: apply_rf_def add_rf_def rf_C_pi rf_S_pi bop_def Let_def)

text \<open>
  Claim C4, amended. The update of the backward pair in \<open>deriv\<close> is
  \<open>ar' = ar C - conj(br) S\<close>, \<open>br' = br C + conj(ar) S\<close>, with \<open>C\<close> and \<open>S\<close> computed
  from \<open>rf[t]\<close> as in the forward pass. It composes the forward rotation on the right
  of the matrix \<open>[[ar, -conj(br)], [br, conj(ar)]]\<close>: the matrix of the new pair
  applied to a spinor is the matrix of the old pair applied to the rotated spinor.
\<close>

theorem add_rf_update:
  assumes "length a = N" and "length b = N"
  shows "\<exists>a' b'. add_rf r (a, b) = Inr (a', b') \<and> length a' = N \<and> length b' = N
     \<and> (\<forall>n<N. a' ! n = a ! n * complex_of_real (rf_C r) - cnj (b ! n) * rf_S r
            \<and> b' ! n = b ! n * complex_of_real (rf_C r) + cnj (a ! n) * rf_S r
            \<and> (\<forall>p. su2 (a' ! n, b' ! n) p = su2 (a ! n, b ! n) (spec_rotate r p)))"
proof -
  have "add_rf r (map (\<lambda>n. a ! n) [0..<N], map (\<lambda>n. b ! n) [0..<N])
    = Inr (map (\<lambda>n. a ! n * complex_of_real (rf_C r) - cnj (b ! n) * rf_S r) [0..<N],
           map (\<lambda>n. b ! n * complex_of_real (rf_C r) + cnj (a ! n) * rf_S r) [0..<N])"
    by (rule add_rf_tab)
  then have eq: "add_rf r (a, b)
    = Inr (map (\<lambda>n. a ! n * complex_of_real (rf_C r) - cnj (b ! n) * rf_S r) [0..<N],
           map (\<lambda>n. b ! n * complex_of_real (rf_C r) + cnj (a ! n) * rf_S r) [0..<N])"
    using list_tab[OF assms(1)] list_tab[OF assms(2)] by simp
  have "su2 (a ! n * complex_of_real (rf_C r) - cnj (b ! n) * rf_S r,
             b ! n * complex_of_real (rf_C r) + cnj (a ! n) * rf_S r) p
      = su2 (a ! n, b ! n) (spec_rotate r p)" for n p
    using su2_back_rf[of r "(a ! n, b ! n)" p] by (simp add: back_rf_def Let_def)
  then show ?thesis
    unfolding eq by simp
qed

theorem add_rf_update_witness:
  "length [\<i>] = 1 \<and> length [0::complex] = 1
   \<and> add_rf (complex_of_real pi) ([\<i>], [0]) = Inr ([0], [1])
   \<and> su2 (0, 1) (1, 0) = su2 (\<i>, 0) (spec_rotate (complex_of_real pi) (1, 0))"
proof -
  from add_rf_update[of "[\<i>]" 1 "[0]" "complex_of_real pi"]
  obtain a' b' where ab: "add_rf (complex_of_real pi) ([\<i>], [0]) = Inr (a', b')"
    "length a' = 1" "length b' = 1"
    "a' ! 0 = [\<i>] ! 0 * complex_of_real (rf_C (complex_of_real pi)) - cnj ([0] ! 0) * rf_S (complex_of_real pi)"
    "b' ! 0 = [0] ! 0 * complex_of_real (rf_C (complex_of_real pi)) + cnj ([\<i>] ! 0) * rf_S (complex_of_real pi)"
    "\<And>p. su2 (a' ! 0, b' ! 0) p = su2 ([\<i>] ! 0, [0] ! 0) (spec_rotate (complex_of_real pi) p)"
    by auto
  from ab(2,4) have a': "a' = [0]"
    by (cases a') (simp_all add: rf_C_pi)
  from ab(3,5) have b': "b' = [1]"
    by (cases b') (simp_all add: rf_C_pi rf_S_pi)
  show ?thesis
    using ab(1) ab(6)[of "(1, 0)"] unfolding a' b' by simp
qed

lemma grad_phase_column:
  "grad_phase c (GeomN (as_column x) (as_column g)) mm = grad_phase c (Geom1 x g) mm"
  by (simp add: as_column_def index_def matvec_def o_def)

lemma total_phase_column:
  "total_phase (GeomN (as_column x) (as_column g)) = total_phase (Geom1 x g)"
  by (simp add: as_column_def matvec_def col_sums_def o_def)

lemma bloch_iter_column:
  "bloch_iter rf (GeomN (as_column x) (as_column g)) k = bloch_iter rf (Geom1 x g) k"
proof (induction k)
  case 0
  then show ?case by (simp add: as_column_def)
next
  case (Suc k)
  have "apply_gradient (GeomN (as_column x) (as_column g)) k = apply_gradient (Geom1 x g) k"
    by (rule ext) (simp only: apply_gradient_def grad_phase_column)
  then have "bloch_step rf (GeomN (as_column x) (as_column g)) k = bloch_step rf (Geom1 x g) k"
    by (intro ext) (simp only: bloch_step_def)
  with Suc show ?case by simp
qed

lemma deriv_iter_column:
  "deriv_iter rf (GeomN (as_column x) (as_column g)) auxa auxb af0 bf0 k
     = deriv_iter rf (Geom1 x g) auxa auxb af0 bf0 k"
proof (induction k)
  case 0
  then show ?case by simp
next
  case (Suc k)
  have "deriv_step rf (GeomN (as_column x) (as_column g)) auxa auxb mm
      = deriv_step rf (Geom1 x g) auxa auxb mm" for mm
    by (rule ext) (simp only: deriv_step_def grad_phase_column)
  with Suc show ?case by simp
qed

text \<open>
  Claim C8. On a 1-D pair \<open>x\<close>, \<open>g\<close> and on the same values given as 2-D arrays with
  one column, \<open>blochsim\<close> returns the same result and \<open>deriv\<close> returns the same
  result (errors included).
\<close>

theorem column_layout_equivalence:
  "blochsim rf (GeomN (as_column x) (as_column g)) = blochsim rf (Geom1 x g)
   \<and> deriv rf (GeomN (as_column x) (as_column g)) auxa auxb af0 bf0
       = deriv rf (Geom1 x g) auxa auxb af0 bf0"
proof
  have "apply_total (GeomN (as_column x) (as_column g)) = apply_total (Geom1 x g)"
    by (rule ext) (simp only: apply_total_def total_phase_column)
  then show "blochsim rf (GeomN (as_column x) (as_column g)) = blochsim rf (Geom1 x g)"
    by (simp add: blochsim_def bloch_iter_column)
next
  show "deriv rf (GeomN (as_column x) (as_column g)) auxa auxb af0 bf0
       = deriv rf (Geom1 x g) auxa auxb af0 bf0"
    by (simp add: deriv_def deriv_iter_column)
qed

lemma bop_bad:
  "length xs \<noteq> length ys \<Longrightarrow> length xs \<noteq> 1 \<Longrightarrow> length ys \<noteq> 1 \<Longrightarrow> bop f xs ys = Inl ValueError"
  by (simp add: bop_def)

lemma bop_good:
  assumes "length ys = length xs \<or> length ys = 1"
  shows "\<exists>zs. bop f xs ys = Inr zs \<and> length zs = length xs"
  using assms by (auto simp: bop_def)

lemma grad_b_bad:
  assumes "length (fst fw) = N" "length (snd fw) = N" "length (fst bw) = N" "length (snd bw) = N"
    and "length auxb \<noteq> N" "length auxb \<noteq> 1" "N \<noteq> 1"
  shows "grad_b auxb fw bw = Inl ValueError"
proof -
  obtain t1 where t1: "bop (*) (map (\<lambda>v. \<i> / 2 * v) (snd bw)) (snd fw) = Inr t1" "length t1 = N"
    using bop_good[of "snd fw" "map (\<lambda>v. \<i> / 2 * v) (snd bw)" "(*)"] assms(2,4) by auto
  have bad: "bop (*) (map cnj t1) auxb = Inl ValueError"
    using t1(2) assms(5,6,7) by (intro bop_bad) auto
  show ?thesis unfolding grad_b_def t1(1) ebind_Inr bad ebind_Inl ..
qed

lemma grad_b_good:
  assumes "length (fst fw) = N" "length (snd fw) = N" "length (fst bw) = N" "length (snd bw) = N"
    and "length auxb = N \<or> length auxb = 1"
  shows "\<exists>d. grad_b auxb fw bw = Inr d"
proof -
  obtain t1 where t1: "bop (*) (map (\<lambda>v. \<i> / 2 * v) (snd bw)) (snd fw) = Inr t1" "length t1 = N"
    using bop_good[of "snd fw" "map (\<lambda>v. \<i> / 2 * v) (snd bw)" "(*)"] assms(2,4) by auto
  obtain db1 where db1: "bop (*) (map cnj t1) auxb = Inr db1" "length db1 = N"
    using bop_good[of auxb "map cnj t1" "(*)"] t1(2) assms(5) by auto
  obtain t2 where t2: "bop (*) (map (\<lambda>v. cnj (\<i> / 2 * v)) (fst fw)) (fst bw) = Inr t2" "length t2 = N"
    using bop_good[of "fst bw" "map (\<lambda>v. cnj (\<i> / 2 * v)) (fst fw)" "(*)"] assms(1,3) by auto
  obtain db2 where db2: "bop (*) t2 auxb = Inr db2" "length db2 = N"
    using bop_good[of auxb t2 "(*)"] t2(2) assms(5) by auto
  obtain s where s: "bop (+) db2 (map cnj db1) = Inr s"
    using bop_good[of "map cnj db1" db2 "(+)"] db1(2) db2(2) by auto
  show ?thesis unfolding grad_b_def t1(1) ebind_Inr db1(1) t2(1) db2(1) s by blast
qed

lemma grad_a_bad:
  assumes "length (fst fw) = N" "length (snd fw) = N" "length (fst bw) = N" "length (snd bw) = N"
    and "length auxa \<noteq> N" "length auxa \<noteq> 1" "N \<noteq> 1"
  shows "grad_a auxa fw bw = Inl ValueError"
proof -
  obtain t1 where t1: "bop (*) (map (\<lambda>v. \<i> / 2 * v) (snd fw)) (fst bw) = Inr t1" "length t1 = N"
    using bop_good[of "fst bw" "map (\<lambda>v. \<i> / 2 * v) (snd fw)" "(*)"] assms(2,3) by auto
  have bad: "bop (*) (map cnj t1) auxa = Inl ValueError"
    using t1(2) assms(5,6,7) by (intro bop_bad) auto
  show ?thesis unfolding grad_a_def t1(1) ebind_Inr bad ebind_Inl ..
qed

lemma deriv_iter_Inl:
  "deriv_iter rf geom auxa auxb af0 bf0 k = Inl e \<Longrightarrow>
   deriv_iter rf geom auxa auxb af0 bf0 (k + j) = Inl e"
  by (induction j) simp_all

lemma deriv_first_pass_bad:
  assumes "wf_geom geom" "0 < length rf" "length rf \<le> steps geom"
    and "length af0 = nspins geom" "length bf0 = nspins geom" "nspins geom \<noteq> 1"
    and "(length auxb \<noteq> nspins geom \<and> length auxb \<noteq> 1)
       \<or> (\<exists>aa. auxa = Some aa \<and> length aa \<noteq> nspins geom \<and> length aa \<noteq> 1)"
  shows "deriv_iter rf geom auxa auxb af0 bf0 1 = Inl ValueError"
proof -
  let ?N = "nspins geom"
  let ?mm = "length rf - 1"
  let ?s = "\<lambda>n. ((af0 ! n, bf0 ! n), (1::complex, 0::complex))"
  let ?F = "\<lambda>n. back_fw (rf ! ?mm) (spec_phase geom n ?mm) (fst (?s n))"
  let ?A = "\<lambda>n. back_blip (spec_phase geom n ?mm) (snd (?s n))"
  let ?fw = "(map (\<lambda>n. fst (?F n)) [0..<?N], map (\<lambda>n. snd (?F n)) [0..<?N])"
  let ?bw = "(map (\<lambda>n. fst (?A n)) [0..<?N], map (\<lambda>n. snd (?A n)) [0..<?N])"
  have mm: "?mm < steps geom" using assms(2,3) by linarith
  have init: "\<lparr>drf = replicate (length rf) 0, af = af0, bf = bf0,
       ar = replicate (length af0) 1, br = replicate (length bf0) 0\<rparr>
     = \<lparr>drf = replicate (length rf) 0, af = map (\<lambda>n. fst (fst (?s n))) [0..<?N],
        bf = map (\<lambda>n. snd (fst (?s n))) [0..<?N],
        ar = map (\<lambda>n. fst (snd (?s n))) [0..<?N],
        br = map (\<lambda>n. snd (snd (?s n))) [0..<?N]\<rparr>"
    using assms(4,5) by (auto intro!: nth_equalityI)
  have len: "length (fst ?fw) = ?N" "length (snd ?fw) = ?N" "length (fst ?bw) = ?N"
    "length (snd ?bw) = ?N"
    by simp_all
  have step: "deriv_iter rf geom auxa auxb af0 bf0 1
     = ebind (grad_b auxb ?fw ?bw) (\<lambda>db.
          ebind (case auxa of None \<Rightarrow> Inr db
                 | Some aa \<Rightarrow> ebind (grad_a aa ?fw ?bw) (\<lambda>da. Inr (db + da))) (\<lambda>v.
          Inr \<lparr>drf = (replicate (length rf) 0)[?mm := v], af = fst ?fw, bf = snd ?fw,
               ar = map (\<lambda>n. fst (back_rf (rf ! ?mm) (?A n))) [0..<?N],
               br = map (\<lambda>n. snd (back_rf (rf ! ?mm) (?A n))) [0..<?N]\<rparr>))"
  proof -
    have "deriv_iter rf geom auxa auxb af0 bf0 1
       = deriv_step rf geom auxa auxb ?mm
           \<lparr>drf = replicate (length rf) 0, af = af0, bf = bf0,
            ar = replicate (length af0) 1, br = replicate (length bf0) 0\<rparr>"
      by simp
    also have "\<dots> = deriv_step rf geom auxa auxb ?mm
           \<lparr>drf = replicate (length rf) 0, af = map (\<lambda>n. fst (fst (?s n))) [0..<?N],
            bf = map (\<lambda>n. snd (fst (?s n))) [0..<?N],
            ar = map (\<lambda>n. fst (snd (?s n))) [0..<?N],
            br = map (\<lambda>n. snd (snd (?s n))) [0..<?N]\<rparr>"
      unfolding init ..
    finally show ?thesis
      unfolding deriv_step_unfold[OF assms(1) mm] Let_def .
  qed
  show ?thesis
  proof (cases "length auxb \<noteq> ?N \<and> length auxb \<noteq> 1")
    case True
    then have "grad_b auxb ?fw ?bw = Inl ValueError"
      using grad_b_bad[OF len _ _ assms(6)] by blast
    then show ?thesis unfolding step by simp
  next
    case False
    then obtain d where d: "grad_b auxb ?fw ?bw = Inr d"
      using grad_b_good[OF len, of auxb] by blast
    from False assms(7) obtain aa where aa: "auxa = Some aa" "length aa \<noteq> ?N" "length aa \<noteq> 1"
      by blast
    have bad: "grad_a aa ?fw ?bw = Inl ValueError"
      using grad_a_bad[OF len aa(2,3) assms(6)] .
    show ?thesis
      apply (subst step)
      using d bad by (simp add: aa(1))
  qed
qed

text \<open>
  Claim C6, as stated, fails: \<open>deriv\<close> checks no shape. With two spins and an
  \<open>auxb\<close> of length one, numpy broadcasts \<open>auxb\<close> and \<open>deriv\<close> returns a result.
\<close>

theorem deriv_broadcast_counterexample:
  "length [1::complex] \<noteq> nspins (Geom1 [0, 0] [0])
   \<and> deriv [0] (Geom1 [0, 0] [0]) None [1] [1, 1] [0, 0] = Inr [- \<i>]"
  by (simp add: deriv_def deriv_step_def index_def strip_blip_def add_blip_def strip_rf_def
      grad_b_def add_rf_def bop_def rf_C_def rf_S_def Let_def)

text \<open>
  Claim C6, amended. For a call of \<open>deriv\<close> with at least one RF sample, well-formed
  \<open>x\<close> and \<open>g\<close> with no fewer gradient steps than RF samples, \<open>af\<close> and \<open>bf\<close> with one
  entry per spin, and a spin count other than one: when the length of \<open>auxb\<close> is neither
  the spin count nor one, or \<open>auxa\<close> is present and its length is neither the spin count
  nor one, a \<open>ValueError\<close> is raised (by the broadcast in the first pass of the loop).
\<close>

theorem deriv_shape_error:
  assumes "wf_geom geom" and "0 < length rf" and "length rf \<le> steps geom"
    and "length af0 = nspins geom" and "length bf0 = nspins geom" and "nspins geom \<noteq> 1"
    and "(length auxb \<noteq> nspins geom \<and> length auxb \<noteq> 1)
       \<or> (\<exists>aa. auxa = Some aa \<and> length aa \<noteq> nspins geom \<and> length aa \<noteq> 1)"
  shows "deriv rf geom auxa auxb af0 bf0 = Inl ValueError"
proof -
  from assms(2) have "length rf = 1 + (length rf - 1)" by simp
  then have "deriv_iter rf geom auxa auxb af0 bf0 (length rf) = Inl ValueError"
    using deriv_iter_Inl[OF deriv_first_pass_bad[OF assms], of "length rf - 1"] by simp
  then show ?thesis by (simp add: deriv_def)
qed

theorem deriv_shape_error_witness:
  "wf_geom (Geom1 [0, 0] [0]) \<and> 0 < length [0::complex]
   \<and> length [0::complex] \<le> steps (Geom1 [0, 0] [0])
   \<and> length [1::complex, 1] = nspins (Geom1 [0, 0] [0])
   \<and> length [0::complex, 0] = nspins (Geom1 [0, 0] [0])
   \<and> nspins (Geom1 [0, 0] [0]) \<noteq> 1
   \<and> length [1::complex, 1, 1] \<noteq> nspins (Geom1 [0, 0] [0]) \<and> length [1::complex, 1, 1] \<noteq> 1
   \<and> deriv [0] (Geom1 [0, 0] [0]) None [1, 1, 1] [1, 1] [0, 0] = Inl ValueError"
  using deriv_shape_error[of "Geom1 [0, 0] [0]" "[0]" "[1, 1]" "[0, 0]" "[1, 1, 1]" None]
  by simp

section \<open>The gradient\<close>

lemma spec_iter_run: "spec_iter rf geom n k = spin_run rf geom n 0 k (1, 0)"
  by (induction k) (simp_all add: spec_step_def)

lemma spin_run_add:
  "spin_run rf geom n j (m + m') p = spin_run rf geom n (j + m) m' (spin_run rf geom n j m p)"
  by (induction m') (simp_all add: add.assoc)

lemma spin_run_front:
  "spin_run rf geom n j (Suc m) p = spin_run rf geom n (Suc j) m (spec_step rf geom n j p)"
  using spin_run_add[of rf geom n j 1 m p] by simp

lemma spin_run_cong:
  assumes "\<And>i. j \<le> i \<Longrightarrow> i < j + m \<Longrightarrow> rf' ! i = rf ! i"
  shows "spin_run rf' geom n j m p = spin_run rf geom n j m p"
  using assms by (induction m) (simp_all add: spec_step_def)

lemma scale_rotate: "spec_rotate r (scale c p) = scale c (spec_rotate r p)"
  by (simp add: scale_def spec_rotate_rf algebra_simps)

lemma scale_su2: "su2 A (scale c p) = scale c (su2 A p)"
  by (simp add: scale_def su2_def algebra_simps)

lemma scale_scale: "scale c (scale d p) = scale (c * d) p"
  by (simp add: scale_def)

lemma back_fw_scale: "back_fw r \<theta> (scale c p) = scale c (back_fw r \<theta> p)"
  by (simp add: scale_def back_fw_def Let_def algebra_simps)

lemma back_fw_step:
  "back_fw (rf ! t) (spec_phase geom n t) (spec_step rf geom n t p)
     = scale (cis (- (spec_phase geom n t / 2))) p"
proof -
  let ?th = "spec_phase geom n t"
  let ?C = "complex_of_real (rf_C (rf ! t))"
  let ?S = "rf_S (rf ! t)"
  have e1: "exp (- (\<i> * complex_of_real ?th)) = cis (- ?th)" by (simp add: cis_conv_exp)
  have e2: "exp (\<i> / 2 * complex_of_real ?th) = cis (?th / 2)" by (simp add: cis_conv_exp)
  have m1: "cis (- ?th) * cis (?th / 2) = cis (- (?th / 2))" by (simp add: cis_mult)
  have u: "?C * ?C + ?S * cnj ?S = 1" by (rule rf_unit_cnj)
  obtain a b where p: "p = (a, b)" by (cases p)
  have A: "(a * ?C - b * cnj ?S) * cis (- (?th / 2)) * ?C
         + (a * ?S + b * ?C) * cis (- (?th / 2)) * cnj ?S
       = cis (- (?th / 2)) * a * (?C * ?C + ?S * cnj ?S)"
    by (simp add: algebra_simps)
  have B: "- ((a * ?C - b * cnj ?S) * cis (- (?th / 2))) * ?S
         + (a * ?S + b * ?C) * cis (- (?th / 2)) * ?C
       = cis (- (?th / 2)) * b * (?C * ?C + ?S * cnj ?S)"
    by (simp add: algebra_simps)
  have "back_fw (rf ! t) ?th (spec_step rf geom n t p)
     = ((a * ?C - b * cnj ?S) * cis (- (?th / 2)) * ?C
         + (a * ?S + b * ?C) * cis (- (?th / 2)) * cnj ?S,
        - ((a * ?C - b * cnj ?S) * cis (- (?th / 2))) * ?S
         + (a * ?S + b * ?C) * cis (- (?th / 2)) * ?C)"
    unfolding back_fw_def spec_step_def Let_def spec_rotate_rf p e1 e2
    using m1 by (simp add: cis_cnj mult.assoc)
  then show ?thesis unfolding A B u p by (simp add: scale_def)
qed

lemma cis_cancel: "cis (- h) * (x * cis h) = x"
proof -
  have "cis (- h) * (x * cis h) = x * (cis (- h) * cis h)" by (simp only: mult_ac)
  then show ?thesis by (simp add: cis_mult)
qed

lemma cis_half_twice: "cis (- (h / 2)) * (y * cis (- (h / 2))) = y * cis (- h)"
proof -
  have "cis (- (h / 2)) * (y * cis (- (h / 2))) = y * (cis (- (h / 2)) * cis (- (h / 2)))"
    by (simp only: mult_ac)
  then show ?thesis by (simp add: cis_mult)
qed

lemma su2_blip:
  "su2 A (fst q, snd q * exp (- (\<i> * complex_of_real \<theta>)))
     = scale (cis (- (\<theta> / 2))) (su2 (back_blip \<theta> A) q)"
proof -
  have e1: "exp (- (\<i> * complex_of_real \<theta>)) = cis (- \<theta>)" by (simp add: cis_conv_exp)
  have "(fst q, snd q * exp (- (\<i> * complex_of_real \<theta>)))
      = scale (cis (- (\<theta> / 2))) (fst q * cis (\<theta> / 2), snd q * cis (- (\<theta> / 2)))"
    unfolding e1 scale_def fst_conv snd_conv cis_cancel cis_half_twice ..
  then have "su2 A (fst q, snd q * exp (- (\<i> * complex_of_real \<theta>)))
      = scale (cis (- (\<theta> / 2))) (su2 A (fst q * cis (\<theta> / 2), snd q * cis (- (\<theta> / 2))))"
    by (simp add: scale_su2)
  also have "su2 A (fst q * cis (\<theta> / 2), snd q * cis (- (\<theta> / 2))) = su2 (back_blip \<theta> A) q"
    unfolding su2_back_blip half_phase_cis neg_half_phase_cis ..
  finally show ?thesis .
qed

lemma su2_step:
  "su2 A (spec_step rf geom n t p)
     = scale (cis (- (spec_phase geom n t / 2)))
         (su2 (back_rf (rf ! t) (back_blip (spec_phase geom n t) A)) p)"
  unfolding spec_step_def Let_def su2_blip su2_back_rf ..

lemma spec_iter_Suc: "spec_iter rf geom n (Suc t) = spec_step rf geom n t (spec_iter rf geom n t)"
  by (simp add: spec_step_def)

lemma spin_back_inv:
  assumes "(af0 ! n, bf0 ! n) = scale u (spec_iter rf geom n (length rf))" and "k \<le> length rf"
  shows "\<exists>c. fst (spin_back rf geom af0 bf0 n k) = scale c (spec_iter rf geom n (length rf - k))
     \<and> (\<forall>p. scale u (spin_run rf geom n (length rf - k) k p)
            = scale c (su2 (snd (spin_back rf geom af0 bf0 n k)) p))"
  using assms(2)
proof (induction k)
  case 0
  have "su2 (1, 0) p = p" for p by (simp add: su2_def)
  then show ?case using assms(1) by (intro exI[of _ u]) simp
next
  case (Suc k)
  define t where "t = length rf - 1 - k"
  define th where "th = spec_phase geom n t"
  from Suc.prems have t: "length rf - k = Suc t" "length rf - Suc k = t"
    by (simp_all add: t_def)
  from Suc obtain c where
    F: "fst (spin_back rf geom af0 bf0 n k) = scale c (spec_iter rf geom n (Suc t))" and
    A: "\<And>p. scale u (spin_run rf geom n (Suc t) k p)
            = scale c (su2 (snd (spin_back rf geom af0 bf0 n k)) p)"
    unfolding t by auto
  have sb: "spin_back rf geom af0 bf0 n (Suc k)
      = (back_fw (rf ! t) th (fst (spin_back rf geom af0 bf0 n k)),
         back_rf (rf ! t) (back_blip th (snd (spin_back rf geom af0 bf0 n k))))"
    by (simp add: Let_def t_def th_def)
  have F': "fst (spin_back rf geom af0 bf0 n (Suc k))
      = scale (c * cis (- (th / 2))) (spec_iter rf geom n t)"
    unfolding sb fst_conv F spec_iter_Suc back_fw_scale th_def back_fw_step scale_scale ..
  have A': "scale u (spin_run rf geom n t (Suc k) p)
            = scale (c * cis (- (th / 2))) (su2 (snd (spin_back rf geom af0 bf0 n (Suc k))) p)" for p
    unfolding spin_run_front A su2_step scale_scale sb snd_conv th_def ..
  show ?case unfolding t using F' A' by blast
qed

lemma perturbed_final:
  assumes "(af0 ! n, bf0 ! n) = scale u (spec_iter rf geom n (length rf))" and "t < length rf"
  shows "scale u (spec_iter (rf[t := v]) geom n (length rf))
     = su2 (spin_bw rf geom af0 bf0 n t) (spec_rotate v (spin_fw rf geom af0 bf0 n t))"
proof -
  define k where "k = length rf - 1 - t"
  define th where "th = spec_phase geom n t"
  define rf' where "rf' = rf[t := v]"
  define psi where "psi = spec_iter rf geom n t"
  from assms(2) have k: "k \<le> length rf" "length rf - k = Suc t" "length rf = t + Suc k"
    by (simp_all add: k_def)
  from spin_back_inv[OF assms(1) k(1)] obtain c where
    F: "fst (spin_back rf geom af0 bf0 n k) = scale c (spec_iter rf geom n (Suc t))" and
    A: "\<And>p. scale u (spin_run rf geom n (Suc t) k p)
            = scale c (su2 (snd (spin_back rf geom af0 bf0 n k)) p)"
    unfolding k(2) by auto
  have fw: "spin_fw rf geom af0 bf0 n t = scale (c * cis (- (th / 2))) psi"
    unfolding spin_fw_def k_def[symmetric] F spec_iter_Suc back_fw_scale back_fw_step scale_scale
      th_def psi_def ..
  have bw: "spin_bw rf geom af0 bf0 n t = back_blip th (snd (spin_back rf geom af0 bf0 n k))"
    unfolding spin_bw_def k_def th_def ..
  have pre: "spin_run rf' geom n 0 t (1, 0) = psi"
    unfolding spec_iter_run psi_def rf'_def by (rule spin_run_cong) simp
  have suf: "spin_run rf' geom n (Suc t) k p = spin_run rf geom n (Suc t) k p" for p
    unfolding rf'_def by (rule spin_run_cong) simp
  have st: "spec_step rf' geom n t psi
      = (fst (spec_rotate v psi), snd (spec_rotate v psi) * exp (- (\<i> * complex_of_real th)))"
    using assms(2) by (simp add: spec_step_def Let_def rf'_def th_def)
  have "spec_iter rf' geom n (length rf) = spin_run rf' geom n 0 (t + Suc k) (1, 0)"
    unfolding spec_iter_run using k(3) by simp
  also have "\<dots> = spin_run rf geom n (Suc t) k (spec_step rf' geom n t psi)"
    unfolding spin_run_add pre add_0 spin_run_front suf ..
  finally have "scale u (spec_iter rf' geom n (length rf))
      = scale c (su2 (snd (spin_back rf geom af0 bf0 n k)) (spec_step rf' geom n t psi))"
    by (simp only: A)
  also have "\<dots> = scale (c * cis (- (th / 2)))
        (su2 (spin_bw rf geom af0 bf0 n t) (spec_rotate v psi))"
    unfolding st su2_blip scale_scale bw ..
  also have "\<dots> = su2 (spin_bw rf geom af0 bf0 n t) (spec_rotate v (spin_fw rf geom af0 bf0 n t))"
    unfolding fw scale_rotate scale_su2 ..
  finally show ?thesis unfolding rf'_def .
qed

lemma cos_half_abs: "cos (\<bar>e\<bar> / 2) = cos (e / 2)" for e :: real
  by (cases "0 \<le> e") (simp_all add: abs_if)

lemma sgn_sin_half_abs: "sgn e * sin (\<bar>e\<bar> / 2) = sin (e / 2)" for e :: real
  by (cases "0 \<le> e") (auto simp: abs_if sgn_if)

lemma rf_C_real: "rf_C (complex_of_real e) = cos (e / 2)"
  by (simp add: rf_C_def cos_half_abs)

lemma rf_C_imag: "rf_C (\<i> * complex_of_real e) = cos (e / 2)"
  by (simp add: rf_C_def norm_mult cos_half_abs)

lemma rf_S_real: "rf_S (complex_of_real e) = \<i> * complex_of_real (sin (e / 2))"
proof (cases "e = 0")
  case True then show ?thesis by (simp add: rf_S_sgn)
next
  case False
  then have "sgn (complex_of_real e) = complex_of_real (sgn e)"
    by (simp add: sgn_eq sgn_if)
  then show ?thesis
    using sgn_sin_half_abs[of e]
    by (simp add: rf_S_sgn del: of_real_mult add: of_real_mult[symmetric] mult.assoc)
qed

lemma rf_S_imag: "rf_S (\<i> * complex_of_real e) = - complex_of_real (sin (e / 2))"
proof (cases "e = 0")
  case True then show ?thesis by (simp add: rf_S_sgn)
next
  case False
  then have "sgn (\<i> * complex_of_real e) = \<i> * complex_of_real (sgn e)"
    by (simp add: sgn_eq sgn_if norm_mult)
  then show ?thesis
    using sgn_sin_half_abs[of e]
    by (simp add: rf_S_sgn norm_mult del: of_real_mult add: of_real_mult[symmetric] mult.assoc)
qed

lemma rotate_real:
  "spec_rotate (complex_of_real e) p
     = (fst p * complex_of_real (cos (e / 2)) + \<i> * snd p * complex_of_real (sin (e / 2)),
        \<i> * fst p * complex_of_real (sin (e / 2)) + snd p * complex_of_real (cos (e / 2)))"
  by (simp add: spec_rotate_rf rf_C_real rf_S_real)

lemma rotate_imag:
  "spec_rotate (\<i> * complex_of_real e) p
     = (fst p * complex_of_real (cos (e / 2)) + snd p * complex_of_real (sin (e / 2)),
        - fst p * complex_of_real (sin (e / 2)) + snd p * complex_of_real (cos (e / 2)))"
  by (simp add: spec_rotate_rf rf_C_imag rf_S_imag)

lemma rotate_zero: "spec_rotate 0 p = p"
  using rotate_real[of 0 p] by simp

lemma loss_b_real:
  "Re (cnj w * snd (su2 B (spec_rotate (complex_of_real e) p)))
     = cos (e / 2) * Re (cnj w * snd (su2 B p)) + 2 * sin (e / 2) * Re (term_b w p B)"
  unfolding rotate_real by (simp add: su2_def term_b_def field_simps)

lemma loss_b_imag:
  "Re (cnj w * snd (su2 B (spec_rotate (\<i> * complex_of_real e) p)))
     = cos (e / 2) * Re (cnj w * snd (su2 B p)) + 2 * sin (e / 2) * Im (term_b w p B)"
  unfolding rotate_imag by (simp add: su2_def term_b_def field_simps)

lemma loss_a_real:
  "Re (cnj w * fst (su2 B (spec_rotate (complex_of_real e) p)))
     = cos (e / 2) * Re (cnj w * fst (su2 B p)) + 2 * sin (e / 2) * Re (term_a w p B)"
  unfolding rotate_real by (simp add: su2_def term_a_def field_simps)

lemma loss_a_imag:
  "Re (cnj w * fst (su2 B (spec_rotate (\<i> * complex_of_real e) p)))
     = cos (e / 2) * Re (cnj w * fst (su2 B p)) + 2 * sin (e / 2) * Im (term_a w p B)"
  unfolding rotate_imag by (simp add: su2_def term_a_def field_simps)

lemma half_angle_deriv:
  "((\<lambda>e. cos (e / 2) * L + 2 * sin (e / 2) * R) has_real_derivative R) (at 0)"
  by (auto intro!: derivative_eq_intros)

lemma forward_pair_tab:
  assumes "wf_geom geom" "length rf \<le> steps geom"
  shows "forward_pair c rf geom
     = Inr (map (\<lambda>n. fst (scale (out_phase c geom n) (spec_iter rf geom n (length rf))))
              [0..<nspins geom],
            map (\<lambda>n. snd (scale (out_phase c geom n) (spec_iter rf geom n (length rf))))
              [0..<nspins geom])"
proof (cases c)
  case True
  then show ?thesis
    unfolding forward_pair_def blochsim_ok[OF assms]
    by (simp add: blochsim_spec_def spec_final_def Let_def scale_def out_phase_def mult.commute)
next
  case False
  then show ?thesis
    unfolding forward_pair_def bloch_iter_spec[OF assms]
    by (simp add: scale_def out_phase_def)
qed

lemma map2_tab:
  "length ws = N \<Longrightarrow> map2 f ws (map B [0..<N]) = map (\<lambda>n. f (ws ! n) (B n)) [0..<N]"
  by (auto intro!: nth_equalityI)

lemma loss_tab:
  assumes "length auxb = N" "case auxa of None \<Rightarrow> True | Some aa \<Rightarrow> length aa = N"
  shows "loss auxa auxb (map A [0..<N], map B [0..<N])
     = sum_list (map (\<lambda>n. Re (cnj (auxb ! n) * B n)) [0..<N])
       + (case auxa of None \<Rightarrow> 0
          | Some aa \<Rightarrow> sum_list (map (\<lambda>n. Re (cnj (aa ! n) * A n)) [0..<N]))"
  using assms by (cases auxa) (simp_all add: loss_def map2_tab)

lemma loss_at_su2:
  assumes "wf_geom geom" "length rf \<le> steps geom"
    and "length auxb = nspins geom"
    and "case auxa of None \<Rightarrow> True | Some aa \<Rightarrow> length aa = nspins geom"
    and "forward_pair c rf geom = Inr (af0, bf0)" and "t < length rf"
  shows "loss_at c rf geom auxa auxb t v
     = sum_list (map (\<lambda>n. Re (cnj (auxb ! n)
           * snd (su2 (spin_bw rf geom af0 bf0 n t) (spec_rotate v (spin_fw rf geom af0 bf0 n t)))))
         [0..<nspins geom])
       + (case auxa of None \<Rightarrow> 0
          | Some aa \<Rightarrow> sum_list (map (\<lambda>n. Re (cnj (aa ! n)
           * fst (su2 (spin_bw rf geom af0 bf0 n t) (spec_rotate v (spin_fw rf geom af0 bf0 n t)))))
         [0..<nspins geom]))"
proof -
  let ?N = "nspins geom"
  let ?u = "out_phase c geom"
  let ?P = "\<lambda>n. su2 (spin_bw rf geom af0 bf0 n t) (spec_rotate v (spin_fw rf geom af0 bf0 n t))"
  have len: "length (rf[t := v]) \<le> steps geom" "length (rf[t := v]) = length rf"
    using assms(2) by simp_all
  from assms(5) have ab: "af0 = map (\<lambda>n. fst (scale (?u n) (spec_iter rf geom n (length rf)))) [0..<?N]"
    "bf0 = map (\<lambda>n. snd (scale (?u n) (spec_iter rf geom n (length rf)))) [0..<?N]"
    unfolding forward_pair_tab[OF assms(1,2)] by simp_all
  have spin: "(af0 ! n, bf0 ! n) = scale (?u n) (spec_iter rf geom n (length rf))" if "n < ?N" for n
    using that by (subst ab(1), subst ab(2)) simp
  have P: "scale (?u n) (spec_iter (rf[t := v]) geom n (length rf)) = ?P n" if "n < ?N" for n
    by (rule perturbed_final[OF spin[OF that] assms(6)])
  have fp: "forward_pair c (rf[t := v]) geom
      = Inr (map (\<lambda>n. fst (?P n)) [0..<?N], map (\<lambda>n. snd (?P n)) [0..<?N])"
    unfolding forward_pair_tab[OF assms(1) len(1)] len(2)
    by (auto simp: P)
  show ?thesis
    unfolding loss_at_def fp by (simp add: loss_tab[OF assms(3,4)])
qed

lemma sum_list_lin:
  "sum_list (map (\<lambda>n. c * f n + s * g n) xs)
     = c * sum_list (map f xs) + s * sum_list (map g xs)" for c s :: real
  by (induction xs) (simp_all add: algebra_simps)

lemma Re_sum_list: "Re (sum_list (map g xs)) = sum_list (map (\<lambda>n. Re (g n)) xs)"
  by (induction xs) simp_all

lemma Im_sum_list: "Im (sum_list (map g xs)) = sum_list (map (\<lambda>n. Im (g n)) xs)"
  by (induction xs) simp_all

lemma sum_two_lin:
  "sum_list (map (\<lambda>n. c * f n + s * g n) xs)
     + (case opt of None \<Rightarrow> 0
        | Some aa \<Rightarrow> sum_list (map (\<lambda>n. c * f' aa n + s * g' aa n) xs))
   = c * (sum_list (map f xs) + (case opt of None \<Rightarrow> 0 | Some aa \<Rightarrow> sum_list (map (f' aa) xs)))
     + s * (sum_list (map g xs) + (case opt of None \<Rightarrow> 0 | Some aa \<Rightarrow> sum_list (map (g' aa) xs)))"
  for c s :: real
  by (cases opt) (simp_all add: sum_list_lin algebra_simps)

lemma Re_drf_entry:
  "Re (drf_entry rf geom auxa auxb af0 bf0 t)
     = sum_list (map (\<lambda>n. Re (term_b (auxb ! n) (spin_fw rf geom af0 bf0 n t)
                           (spin_bw rf geom af0 bf0 n t))) [0..<nspins geom])
       + (case auxa of None \<Rightarrow> 0
          | Some aa \<Rightarrow> sum_list (map (\<lambda>n. Re (term_a (aa ! n) (spin_fw rf geom af0 bf0 n t)
                           (spin_bw rf geom af0 bf0 n t))) [0..<nspins geom]))"
  unfolding drf_entry_def by (cases auxa) (simp_all add: Re_sum_list)

lemma Im_drf_entry:
  "Im (drf_entry rf geom auxa auxb af0 bf0 t)
     = sum_list (map (\<lambda>n. Im (term_b (auxb ! n) (spin_fw rf geom af0 bf0 n t)
                           (spin_bw rf geom af0 bf0 n t))) [0..<nspins geom])
       + (case auxa of None \<Rightarrow> 0
          | Some aa \<Rightarrow> sum_list (map (\<lambda>n. Im (term_a (aa ! n) (spin_fw rf geom af0 bf0 n t)
                           (spin_bw rf geom af0 bf0 n t))) [0..<nspins geom]))"
  unfolding drf_entry_def by (cases auxa) (simp_all add: Im_sum_list)

lemma loss_at_real:
  assumes "wf_geom geom" "length rf \<le> steps geom"
    and "length auxb = nspins geom"
    and "case auxa of None \<Rightarrow> True | Some aa \<Rightarrow> length aa = nspins geom"
    and "forward_pair c rf geom = Inr (af0, bf0)" and "t < length rf"
  shows "loss_at c rf geom auxa auxb t (complex_of_real e)
     = cos (e / 2) * loss_at c rf geom auxa auxb t 0
       + 2 * sin (e / 2) * Re (drf_entry rf geom auxa auxb af0 bf0 t)"
  unfolding loss_at_su2[OF assms] rotate_zero loss_b_real loss_a_real Re_drf_entry
  by (rule sum_two_lin)

lemma loss_at_imag:
  assumes "wf_geom geom" "length rf \<le> steps geom"
    and "length auxb = nspins geom"
    and "case auxa of None \<Rightarrow> True | Some aa \<Rightarrow> length aa = nspins geom"
    and "forward_pair c rf geom = Inr (af0, bf0)" and "t < length rf"
  shows "loss_at c rf geom auxa auxb t (\<i> * complex_of_real e)
     = cos (e / 2) * loss_at c rf geom auxa auxb t 0
       + 2 * sin (e / 2) * Im (drf_entry rf geom auxa auxb af0 bf0 t)"
  unfolding loss_at_su2[OF assms] rotate_zero loss_b_imag loss_a_imag Im_drf_entry
  by (rule sum_two_lin)

lemma forward_pair_shapes:
  assumes "wf_geom geom" "length rf \<le> steps geom"
    and "forward_pair c rf geom = Inr (af0, bf0)"
  shows "length af0 = nspins geom" "length bf0 = nspins geom"
  using assms(3) unfolding forward_pair_tab[OF assms(1,2)] by auto

lemma loss_near_pi:
  "loss_at True [complex_of_real pi] (Geom1 [0] [0]) None [\<i>] 0 (complex_of_real pi + complex_of_real e)
     = sin ((pi + e) / 2)"
proof -
  have "complex_of_real pi + complex_of_real e = complex_of_real (pi + e)" by simp
  then show ?thesis
    unfolding loss_at_def forward_pair_def
    by (simp add: blochsim_ok blochsim_spec_def spec_final_def Let_def rotate_real loss_def
        del: of_real_add)
qed

lemma loss_near_pi_deriv:
  "((\<lambda>e. loss_at True [complex_of_real pi] (Geom1 [0] [0]) None [\<i>] 0
            (complex_of_real pi + complex_of_real e)) has_real_derivative 0) (at 0)"
  unfolding loss_near_pi by (auto intro!: derivative_eq_intros)

text \<open>
  Claim C1, as stated, fails. One spin at \<open>x = 0\<close>, one RF sample \<open>rf = [\<pi>]\<close>,
  \<open>g = [0]\<close>, \<open>auxb = [i]\<close>, no \<open>auxa\<close>: the raw forward pair is \<open>a = 0\<close>, \<open>b = i\<close>
  (the corrected pair is the same, the positions being zero), and \<open>deriv\<close> returns
  \<open>drf = [1/2]\<close>. The loss at the corrected final state, as a function of the sample,
  is \<open>sin((\<pi> + e) / 2)\<close> along the real axis, with derivative \<open>0\<close> at \<open>e = 0\<close>. So the real
  part \<open>1/2\<close> of \<open>drf[0]\<close> is neither the partial derivative along the real axis nor
  half of it, and \<open>drf[0]\<close> is not the Wirtinger derivative.
\<close>

theorem deriv_not_derivative_counterexample:
  "forward_pair False [complex_of_real pi] (Geom1 [0] [0]) = Inr ([0], [\<i>])
   \<and> deriv [complex_of_real pi] (Geom1 [0] [0]) None [\<i>] [0] [\<i>] = Inr [1 / 2]
   \<and> ((\<lambda>e. loss_at True [complex_of_real pi] (Geom1 [0] [0]) None [\<i>] 0
            (complex_of_real pi + complex_of_real e)) has_real_derivative 0) (at 0)
   \<and> \<not> wirtinger (loss_at True [complex_of_real pi] (Geom1 [0] [0]) None [\<i>] 0)
         (complex_of_real pi) (1 / 2)"
proof (intro conjI)
  show "forward_pair False [complex_of_real pi] (Geom1 [0] [0]) = Inr ([0], [\<i>])"
    by (simp add: forward_pair_def bloch_step_def apply_rf_def apply_gradient_def index_def
        bop_def rf_C_pi rf_S_pi Let_def)
  show "deriv [complex_of_real pi] (Geom1 [0] [0]) None [\<i>] [0] [\<i>] = Inr [1 / 2]"
    by (simp add: deriv_def deriv_step_def index_def strip_blip_def add_blip_def strip_rf_def
        grad_b_def add_rf_def bop_def rf_C_pi rf_S_pi Let_def)
  show "((\<lambda>e. loss_at True [complex_of_real pi] (Geom1 [0] [0]) None [\<i>] 0
            (complex_of_real pi + complex_of_real e)) has_real_derivative 0) (at 0)"
    by (rule loss_near_pi_deriv)
  show "\<not> wirtinger (loss_at True [complex_of_real pi] (Geom1 [0] [0]) None [\<i>] 0)
         (complex_of_real pi) (1 / 2)"
  proof
    assume "wirtinger (loss_at True [complex_of_real pi] (Geom1 [0] [0]) None [\<i>] 0)
         (complex_of_real pi) (1 / 2)"
    then obtain dx dy where
      dx: "((\<lambda>e. loss_at True [complex_of_real pi] (Geom1 [0] [0]) None [\<i>] 0
            (complex_of_real pi + complex_of_real e)) has_real_derivative dx) (at 0)" and
      d: "(1 / 2 :: complex) = (complex_of_real dx - \<i> * complex_of_real dy) / 2"
      unfolding wirtinger_def by blast
    from DERIV_unique[OF dx loss_near_pi_deriv] have "dx = 0" .
    with d have "Re (1 / 2 :: complex) = Re ((- (\<i> * complex_of_real dy)) / 2)" by simp
    then show False by simp
  qed
qed

text \<open>
  Claim C1, amended. For well-formed inputs of matching shapes, with \<open>(af, bf)\<close> the
  pair of the forward simulation for the same \<open>rf\<close>, \<open>x\<close>, \<open>g\<close> (the raw pair, the loss
  then being evaluated at the raw final state, or the corrected pair, the loss then
  being evaluated at the corrected final state), \<open>deriv\<close> returns a \<open>drf\<close> of length
  \<open>Nt\<close>, and for every \<open>t\<close> the real part of \<open>drf[t]\<close> is the partial derivative of the
  loss along the real axis of the sample \<open>t\<close>, its imaginary part the partial
  derivative along the imaginary axis, both taken at the sample value \<open>0\<close> with the
  other samples as given: \<open>drf[t] = \<partial>L/\<partial>Re(rf[t]) + i \<partial>L/\<partial>Im(rf[t])\<close> at \<open>rf[t] = 0\<close>.
\<close>

theorem deriv_gradient_at_zero:
  assumes "wf_geom geom" and "length rf \<le> steps geom"
    and "length auxb = nspins geom"
    and "case auxa of None \<Rightarrow> True | Some aa \<Rightarrow> length aa = nspins geom"
    and "forward_pair c rf geom = Inr (af0, bf0)" and "t < length rf"
  shows "\<exists>d. deriv rf geom auxa auxb af0 bf0 = Inr d \<and> length d = length rf
     \<and> ((\<lambda>e. loss_at c rf geom auxa auxb t (complex_of_real e))
            has_real_derivative Re (d ! t)) (at 0)
     \<and> ((\<lambda>e. loss_at c rf geom auxa auxb t (\<i> * complex_of_real e))
            has_real_derivative Im (d ! t)) (at 0)"
proof -
  have sh: "shapes_ok geom auxa auxb af0 bf0"
    using forward_pair_shapes[OF assms(1,2,5)] assms(3,4) by (simp add: shapes_ok_def)
  let ?d = "map (drf_entry rf geom auxa auxb af0 bf0) [0..<length rf]"
  have d: "deriv rf geom auxa auxb af0 bf0 = Inr ?d"
    by (rule deriv_ok[OF assms(1,2) sh])
  have dt: "?d ! t = drf_entry rf geom auxa auxb af0 bf0 t"
    using assms(6) by simp
  have re: "((\<lambda>e. loss_at c rf geom auxa auxb t (complex_of_real e))
            has_real_derivative Re (?d ! t)) (at 0)"
    unfolding loss_at_real[OF assms] dt by (rule half_angle_deriv)
  have im: "((\<lambda>e. loss_at c rf geom auxa auxb t (\<i> * complex_of_real e))
            has_real_derivative Im (?d ! t)) (at 0)"
    unfolding loss_at_imag[OF assms] dt by (rule half_angle_deriv)
  show ?thesis
    using d re im by (intro exI[of _ ?d]) simp
qed

theorem deriv_gradient_at_zero_witness:
  "wf_geom (Geom1 [0] [0]) \<and> length [0::complex] \<le> steps (Geom1 [0] [0])
   \<and> length [1::complex] = nspins (Geom1 [0] [0])
   \<and> forward_pair True [0] (Geom1 [0] [0]) = Inr ([1], [0])
   \<and> deriv [0] (Geom1 [0] [0]) None [1] [1] [0] = Inr [- \<i> / 2]
   \<and> ((\<lambda>e. loss_at True [0] (Geom1 [0] [0]) None [1] 0 (complex_of_real e))
            has_real_derivative 0) (at 0)
   \<and> ((\<lambda>e. loss_at True [0] (Geom1 [0] [0]) None [1] 0 (\<i> * complex_of_real e))
            has_real_derivative - 1 / 2) (at 0)"
proof -
  have h: "wf_geom (Geom1 [0] [0])" "length [0::complex] \<le> steps (Geom1 [0] [0])"
    "length [1::complex] = nspins (Geom1 [0] [0])"
    "case None of None \<Rightarrow> True | Some aa \<Rightarrow> length aa = nspins (Geom1 [0] [0])"
    "(0::nat) < length [0::complex]"
    by simp_all
  have f: "forward_pair True [0] (Geom1 [0] [0]) = Inr ([1], [0])"
    by (simp add: forward_pair_def blochsim_ok blochsim_spec_def spec_final_def rotate_zero)
  have dv: "deriv [0] (Geom1 [0] [0]) None [1] [1] [0] = Inr [- \<i> / 2]"
    by (simp add: deriv_def deriv_step_def index_def strip_blip_def add_blip_def strip_rf_def
        grad_b_def add_rf_def bop_def rf_C_def rf_S_def Let_def)
  from deriv_gradient_at_zero[OF h(1-4) f h(5)] obtain d where
    d: "deriv [0] (Geom1 [0] [0]) None [1] [1] [0] = Inr d" and
    re: "((\<lambda>e. loss_at True [0] (Geom1 [0] [0]) None [1] 0 (complex_of_real e))
            has_real_derivative Re (d ! 0)) (at 0)" and
    im: "((\<lambda>e. loss_at True [0] (Geom1 [0] [0]) None [1] 0 (\<i> * complex_of_real e))
            has_real_derivative Im (d ! 0)) (at 0)"
    by blast
  from d dv have "d = [- \<i> / 2]" by simp
  with re im h f dv show ?thesis by simp
qed

end
